theory Spec2Isabelle
  imports Complex_Main
begin

section \<open>Data model of \<^verbatim>\<open>videogame/scene.py\<close>\<close>

text \<open>
  Conventions of the embedding.
  \<^item> Python's unbounded integers are \<^typ>\<open>int\<close>; \<^verbatim>\<open>//\<close> is \<open>div\<close> (both round
    towards minus infinity).
  \<^item> Python's floats are idealised as \<^typ>\<open>real\<close>: \<^verbatim>\<open>/\<close> is real division,
    \<^verbatim>\<open>** 0.5\<close> is \<open>sqrt\<close>, \<^verbatim>\<open>math.cos\<close>, \<^verbatim>\<open>math.sin\<close>, \<^verbatim>\<open>math.pi\<close> are
    \<open>cos\<close>, \<open>sin\<close>, \<open>pi\<close>. Rounding errors of the machine floats are not modelled.
  \<^item> Python's \<^verbatim>\<open>int()\<close> on a float truncates towards zero: \<open>py_int\<close>.
  \<^item> A \<^verbatim>\<open>pygame.Rect\<close> stores integers. A float assigned to one of its coordinates is
    rounded to the nearest integer (100.6 becomes 101, 100.4 becomes 100): \<open>rect_int\<close>.
  \<^item> An exception is a value \<open>Inl err\<close> of a sum type.
\<close>

type_synonym point = "int \<times> int"

datatype error = ZeroDivisionError

definition py_int :: "real \<Rightarrow> int" where
  "py_int v = (if 0 \<le> v then \<lfloor>v\<rfloor> else \<lceil>v\<rceil>)"

text \<open>
  The nearest integer. A value exactly halfway between two integers is taken up here; no
  result below depends on that choice, the general lemmas use only that the result is an
  integer at distance at most 1/2 and no concrete step below is a tie.
\<close>

definition rect_int :: "real \<Rightarrow> int" where
  "rect_int v = \<lfloor>v + 1 / 2\<rfloor>"

subsection \<open>EnemyPath: the entrance path\<close>

text \<open>
  \<^verbatim>\<open>total_points = int(lopps * points_per_loop)\<close> with \<^verbatim>\<open>lopps = 1.5\<close> and
  \<^verbatim>\<open>points_per_loop = 40\<close>.
\<close>

definition points_per_loop :: int where
  "points_per_loop = 40"

definition total_points :: int where
  "total_points = py_int (1.5 * real_of_int points_per_loop)"

text \<open>
  One iteration of the first loop of \<^verbatim>\<open>create_arc_path\<close>: the waypoint for index \<open>i\<close>.
  With the exact cosine and sine a coordinate can be an exact integer where the machine
  value falls just below it and \<^verbatim>\<open>int()\<close> then gives one less (index 30 of the spiral from
  \<open>start_x = 250\<close>: 250 here, 249 on the machine). Nothing below depends on such a waypoint.
\<close>

definition spiral_point :: "int \<Rightarrow> int \<Rightarrow> bool \<Rightarrow> int \<Rightarrow> point" where
  "spiral_point start_x start_y flip i =
     (let spiral_radius = 180 :: real;
          vertical_drop = 350 :: real;
          center_x = start_x;
          center_y = start_y + 100;
          angle0 = (real_of_int i / real_of_int points_per_loop) * 2 * pi;
          angle = (if flip then - angle0 else angle0);
          radius = spiral_radius * (1 - real_of_int i / real_of_int total_points);
          x = real_of_int center_x + radius * cos angle;
          y = real_of_int center_y + radius * sin angle
                + (vertical_drop * real_of_int i / real_of_int total_points)
      in (py_int x, py_int y))"

text \<open>
  \<^verbatim>\<open>create_arc_path\<close>: the spiral, then \<^verbatim>\<open>steps = 40\<close> interpolation points
  \<^verbatim>\<open>for i in range(steps)\<close> from the spiral's last point (\<^verbatim>\<open>path[-1]\<close>, which exists
  because the spiral has \<open>total_points = 60\<close> points).
\<close>

definition create_arc_path :: "int \<Rightarrow> int \<Rightarrow> bool \<Rightarrow> point \<Rightarrow> point list" where
  "create_arc_path start_x start_y flip formation_pos =
     (let spiral = map (spiral_point start_x start_y flip) [0..total_points - 1];
          (final_x, final_y) = last spiral;
          steps = 40 :: int;
          dx = real_of_int (fst formation_pos - final_x) / real_of_int steps;
          dy = real_of_int (snd formation_pos - final_y) / real_of_int steps
      in spiral @
         map (\<lambda>i. (py_int (real_of_int final_x + dx * real_of_int i),
                    py_int (real_of_int final_y + dy * real_of_int i)))
             [0..steps - 1])"

subsection \<open>EnemyPath: the agent and its per-tick update\<close>

datatype enemy_state = Entering | Formation | Diving

text \<open>
  The sprite's rectangle is 70 by 70 and only its \<^verbatim>\<open>center\<close> is ever read or written, so
  the record keeps \<open>center\<close> (integers, as the Rect has them).
\<close>

record enemy =
  center :: point
  path :: "point list"
  current_point :: nat
  speed :: real
  formation_pos :: point
  state :: enemy_state
  dive_path :: "point list"
  dive_point :: nat

definition EnemyPath_init :: "int \<Rightarrow> int \<Rightarrow> bool \<Rightarrow> point \<Rightarrow> real \<Rightarrow> enemy" where
  "EnemyPath_init start_x start_y flip fpos speed_multiplier =
     (let p = create_arc_path start_x start_y flip fpos
      in \<lparr> center = hd p, path = p, current_point = 0, speed = 4 * speed_multiplier,
           formation_pos = fpos, state = Entering, dive_path = [], dive_point = 0 \<rparr>)"

text \<open>
  The waypoint-following step that \<^verbatim>\<open>update\<close> spells out twice (entering and diving):
  from centre \<open>c\<close> towards \<open>target\<close> at speed \<open>spd\<close>. The result is the new centre and
  whether the index advances. \<^verbatim>\<open>dx / distance\<close> raises when \<open>distance\<close> is zero.
  \<^verbatim>\<open>self.rect.centerx += dx / distance * self.speed\<close> assigns a float to the Rect, which
  rounds it.
\<close>

definition waypoint_step :: "point \<Rightarrow> real \<Rightarrow> point \<Rightarrow> error + (point \<times> bool)" where
  "waypoint_step c spd target =
     (let target_x = fst target; target_y = snd target;
          dx = target_x - fst c;
          dy = target_y - snd c;
          distance = sqrt (real_of_int (dx\<^sup>2 + dy\<^sup>2))
      in if distance < spd then Inr ((target_x, target_y), True)
         else if distance = 0 then Inl ZeroDivisionError
         else Inr ((rect_int (real_of_int (fst c) + real_of_int dx / distance * spd),
                    rect_int (real_of_int (snd c) + real_of_int dy / distance * spd)), False))"

definition update :: "enemy \<Rightarrow> error + enemy" where
  "update e =
     (case state e of
        Entering \<Rightarrow>
          if int (current_point e) < int (length (path e)) - 1 then
            (case waypoint_step (center e) (speed e) (path e ! current_point e) of
               Inl err \<Rightarrow> Inl err
             | Inr (c, arrived) \<Rightarrow>
                 Inr (e\<lparr>center := c,
                        current_point := (if arrived then current_point e + 1
                                          else current_point e)\<rparr>))
          else Inr (e\<lparr>state := Formation, center := formation_pos e\<rparr>)
      | Formation \<Rightarrow> Inr (e\<lparr>center := formation_pos e\<rparr>)
      | Diving \<Rightarrow>
          if dive_point e < length (dive_path e) then
            (case waypoint_step (center e) (speed e) (dive_path e ! dive_point e) of
               Inl err \<Rightarrow> Inl err
             | Inr (c, arrived) \<Rightarrow>
                 Inr (e\<lparr>center := c,
                        dive_point := (if arrived then dive_point e + 1
                                       else dive_point e)\<rparr>))
          else Inr (e\<lparr>state := Formation, center := formation_pos e\<rparr>))"


subsection \<open>GameScene.create_dive_path\<close>

definition create_dive_path :: "point \<Rightarrow> point \<Rightarrow> point \<Rightarrow> point list" where
  "create_dive_path start target end_pos =
     (let mid_x = (fst start + fst target) div 2;
          mid_y = (snd start + snd target) div 2 + 200
      in [(mid_x, mid_y), target, (mid_x, mid_y), end_pos])"

subsection \<open>EnemySpawner\<close>

record spawner =
  enemy_group :: "enemy list"
  wave_size :: int
  formation_y :: int
  formation_spacing :: int

definition EnemySpawner_init :: spawner where
  "EnemySpawner_init =
     \<lparr> enemy_group = [], wave_size = 40, formation_y = 200, formation_spacing = 60 \<rparr>"

text \<open>
  The inner loop of \<^verbatim>\<open>spawn_wave\<close> over the columns of one row; the loop state is the
  group and \<^verbatim>\<open>count\<close>. \<^verbatim>\<open>break\<close> leaves the inner loop only. A new sprite is a new
  object, so \<^verbatim>\<open>Group.add\<close> always appends it.
\<close>

fun spawn_cols ::
  "int \<Rightarrow> real \<Rightarrow> int \<Rightarrow> int \<Rightarrow> int list \<Rightarrow> enemy list \<times> int \<Rightarrow> enemy list \<times> int" where
  "spawn_cols ws sm start_x row [] (grp, count) = (grp, count)"
| "spawn_cols ws sm start_x row (col # cols) (grp, count) =
     (if count \<ge> ws then (grp, count)
      else
        (let start_y = 100; spacing_x = 150; spacing_y = 90;
             formation_x = start_x + col * spacing_x;
             formation_y = start_y + row * spacing_y;
             fpos = (formation_x, formation_y);
             new_enemy = EnemyPath_init formation_x (- 70) False fpos sm
         in spawn_cols ws sm start_x row cols (grp @ [new_enemy], count + 1)))"

fun spawn_rows ::
  "int \<Rightarrow> real \<Rightarrow> int \<Rightarrow> int \<Rightarrow> int list \<Rightarrow> enemy list \<times> int \<Rightarrow> enemy list \<times> int" where
  "spawn_rows ws sm start_x cols [] st = st"
| "spawn_rows ws sm start_x cols (row # rows) st =
     spawn_rows ws sm start_x cols rows (spawn_cols ws sm start_x row [0..cols - 1] st)"

definition spawn_wave :: "spawner \<Rightarrow> real \<Rightarrow> spawner" where
  "spawn_wave sp speed_multiplier =
     (let max_cols = 5; rows = 4;
          cols = min max_cols ((wave_size sp + rows - 1) div rows);
          spacing_x = 150;
          formation_width = (cols - 1) * spacing_x;
          start_x = (1100 - formation_width) div 2;
          (grp, count) = spawn_rows (wave_size sp) speed_multiplier start_x cols [0..rows - 1]
                           (enemy_group sp, 0)
      in sp\<lparr>enemy_group := grp\<rparr>)"

subsection \<open>Rectangles, Bullet and Ship\<close>

text \<open>
  A rectangle is \<open>(x, y, w, h)\<close>. \<^verbatim>\<open>Rect.colliderect\<close> for rectangles of positive size
  (every sprite here is 70 by 70 or 4 by 4).
\<close>

type_synonym rect = "int \<times> int \<times> int \<times> int"

definition colliderect :: "rect \<Rightarrow> rect \<Rightarrow> bool" where
  "colliderect a b =
     (case a of (ax, ay, aw, ah) \<Rightarrow> case b of (bx, by, bw, bh) \<Rightarrow>
        ax < bx + bw \<and> ay < by + bh \<and> ax + aw > bx \<and> ay + ah > by)"

record bullet =
  b_rect_x :: int
  b_rect_y :: int
  b_vel_x :: int
  b_vel_y :: int

definition Bullet_init :: bullet where
  "Bullet_init = \<lparr> b_rect_x = 0, b_rect_y = 0, b_vel_x = 0, b_vel_y = - 8 \<rparr>"

definition Bullet_update :: "bullet \<Rightarrow> bullet" where
  "Bullet_update b =
     b\<lparr>b_rect_x := b_rect_x b + b_vel_x b, b_rect_y := b_rect_y b + b_vel_y b\<rparr>"

definition bullet_rect :: "bullet \<Rightarrow> rect" where
  "bullet_rect b = (b_rect_x b, b_rect_y b, 4, 4)"

record ship =
  rect_x :: int
  rect_y :: int
  vel_x :: int
  vel_y :: int
  ship_speed :: int
  bullets :: "bullet list"

definition Ship_init :: ship where
  "Ship_init = \<lparr> rect_x = 1100 div 2, rect_y = 1300 - 70, vel_x = 0, vel_y = 0,
                 ship_speed = 5, bullets = [] \<rparr>"

definition Ship_update :: "ship \<Rightarrow> ship" where
  "Ship_update s =
     (let bs = map Bullet_update (bullets s);
          bs' = filter (\<lambda>b. \<not> b_rect_y b \<le> 0) bs;
          x1 = rect_x s + vel_x s;
          x2 = (if x1 < 0 then 0 else if x1 \<ge> 1100 - 70 then 1100 - 70 else x1)
      in s\<lparr>bullets := bs', rect_x := x2, rect_y := rect_y s + vel_y s\<rparr>)"

definition Ship_shoot :: "ship \<Rightarrow> ship" where
  "Ship_shoot s =
     (if length (bullets s) = 0 then
        s\<lparr>bullets := bullets s @
             [Bullet_init\<lparr>b_rect_x := rect_x s + (70 div 2) - 3, b_rect_y := rect_y s\<rparr>]\<rparr>
      else s)"

definition ship_rect :: "ship \<Rightarrow> rect" where
  "ship_rect s = (rect_x s, rect_y s, 70, 70)"

definition ship_center :: "ship \<Rightarrow> point" where
  "ship_center s = (rect_x s + 70 div 2, rect_y s + 70 div 2)"

definition enemy_rect :: "enemy \<Rightarrow> rect" where
  "enemy_rect e = (fst (center e) - 70 div 2, snd (center e) - 70 div 2, 70, 70)"

subsection \<open>Sprite groups and collisions\<close>

text \<open>
  Ship objects are shared between the scene's groups and \<^verbatim>\<open>self.player\<close>, so they live
  in a store (object identity is a \<^typ>\<open>nat\<close>) and a group of ships is the list of the
  identities it holds, in insertion order. \<^verbatim>\<open>Group.update\<close> calls \<^verbatim>\<open>update\<close> on every
  member.
\<close>

type_synonym ship_store = "nat \<Rightarrow> ship"

definition group_add :: "nat list \<Rightarrow> nat \<Rightarrow> nat list" where
  "group_add grp i = (if i \<in> set grp then grp else grp @ [i])"

definition group_remove :: "nat list \<Rightarrow> nat \<Rightarrow> nat list" where
  "group_remove grp i = removeAll i grp"

fun group_update :: "nat list \<Rightarrow> ship_store \<Rightarrow> ship_store" where
  "group_update [] st = st"
| "group_update (i # grp) st = group_update grp (st(i := Ship_update (st i)))"

fun update_all :: "enemy list \<Rightarrow> error + enemy list" where
  "update_all [] = Inr []"
| "update_all (e # es) =
     (case update e of
        Inl err \<Rightarrow> Inl err
      | Inr e' \<Rightarrow> (case update_all es of Inl err \<Rightarrow> Inl err | Inr es' \<Rightarrow> Inr (e' # es')))"

text \<open>
  \<^verbatim>\<open>pygame.sprite.groupcollide(enemies, bullets, True, True)\<close>: the enemies are visited in
  order; each one collects and kills the bullets that overlap it, and is killed itself
  when it collected any. The result is the enemies hit (the keys of the returned
  dictionary, in insertion order), the enemies left and the bullets left.
\<close>

fun groupcollide :: "enemy list \<Rightarrow> bullet list \<Rightarrow> enemy list \<times> enemy list \<times> bullet list" where
  "groupcollide [] bs = ([], [], bs)"
| "groupcollide (e # es) bs =
     (let collision = filter (\<lambda>b. colliderect (enemy_rect e) (bullet_rect b)) bs;
          bs' = filter (\<lambda>b. \<not> colliderect (enemy_rect e) (bullet_rect b)) bs;
          (hits, rest, bs'') = groupcollide es bs'
      in if collision \<noteq> [] then (e # hits, rest, bs'') else (hits, e # rest, bs''))"

definition spritecollideany :: "ship \<Rightarrow> enemy list \<Rightarrow> bool" where
  "spritecollideany s es = (\<exists>e \<in> set es. colliderect (ship_rect s) (enemy_rect e))"

subsection \<open>GameScene\<close>

text \<open>
  The attributes of \<^verbatim>\<open>GameScene\<close> that its update loop and event handler read or write.
  The background star field (random, read by nothing else), the screen, sounds and the
  soundtrack are left out.
\<close>

record game =
  lives :: int
  lives_group :: "nat list"
  respawn_timer :: int
  is_respawning :: bool
  intro_timer :: int
  start_descent :: bool
  intro_tar_pos :: point
  intro_moving :: bool
  player_control_enable :: bool
  enemy_spawner :: spawner
  score :: int
  level :: int
  speed_multiplier :: real
  extra_life :: int
  game_over :: bool
  intro_ships :: "nat list"
  intro_done :: bool
  intro_left_ship :: nat
  player :: nat
  sprite_group :: "nat list"
  ships :: ship_store
  next_ship :: nat

definition enemies :: "game \<Rightarrow> enemy list" where
  "enemies g = enemy_group (enemy_spawner g)"

definition set_enemies :: "enemy list \<Rightarrow> game \<Rightarrow> game" where
  "set_enemies es g = g\<lparr>enemy_spawner := (enemy_spawner g)\<lparr>enemy_group := es\<rparr>\<rparr>"

definition player_ship :: "game \<Rightarrow> ship" where
  "player_ship g = ships g (player g)"

text \<open>
  \<^verbatim>\<open>GameScene.__init__\<close>: three intro ships (identities 0, 1, 2, centred at
  \<open>(950 + (i - 1) * 90, 650)\<close>), the leftmost is the player; a first wave is spawned with
  \<^verbatim>\<open>wave_size = 40\<close>; since \<open>lives > 0\<close> the scene starts in a respawn countdown.
\<close>

definition intro_ship :: "int \<Rightarrow> ship" where
  "intro_ship i =
     Ship_init\<lparr>rect_y := 650 - 70 div 2, rect_x := 950 + (i - 1) * 90 - 70 div 2, vel_y := 0\<rparr>"

definition GameScene_init :: game where
  "GameScene_init =
     \<lparr> lives = 3, lives_group = [0, 1, 2], respawn_timer = 180, is_respawning = True,
       intro_timer = 0, start_descent = False, intro_tar_pos = (1100 div 2, 1300 - 100),
       intro_moving = False, player_control_enable = True,
       enemy_spawner = spawn_wave (EnemySpawner_init\<lparr>wave_size := 40\<rparr>) 1,
       score = 0, level = 1, speed_multiplier = 1, extra_life = 10000, game_over = False,
       intro_ships = [0, 1, 2], intro_done = False, intro_left_ship = 0, player = 0,
       sprite_group = [],
       ships = (\<lambda>_. Ship_init)(0 := intro_ship 0, 1 := intro_ship 1, 2 := intro_ship 2),
       next_ship = 3 \<rparr>"

datatype key = K_a | K_LEFT | K_d | K_RIGHT | K_RETURN | K_SPACE | K_r | K_other

datatype event = KEYDOWN key | KEYUP key | OTHER_EVENT

definition handle_event :: "event \<Rightarrow> game \<Rightarrow> game" where
  "handle_event ev g =
     (if game_over g then (if ev = KEYDOWN K_r then GameScene_init else g)
      else if \<not> player_control_enable g then g
      else
        (case ev of
           KEYDOWN k \<Rightarrow>
             if k = K_a \<or> k = K_LEFT then
               g\<lparr>ships := (ships g)(player g := (player_ship g)\<lparr>vel_x := - ship_speed (player_ship g)\<rparr>)\<rparr>
             else if k = K_d \<or> k = K_RIGHT then
               g\<lparr>ships := (ships g)(player g := (player_ship g)\<lparr>vel_x := ship_speed (player_ship g)\<rparr>)\<rparr>
             else if k = K_RETURN \<or> k = K_SPACE then
               g\<lparr>ships := (ships g)(player g := Ship_shoot (player_ship g))\<rparr>
             else g
         | KEYUP k \<Rightarrow>
             if k = K_a \<or> k = K_LEFT then
               g\<lparr>ships := (ships g)(player g := (player_ship g)\<lparr>vel_x := 0\<rparr>)\<rparr>
             else if k = K_d \<or> k = K_RIGHT then
               g\<lparr>ships := (ships g)(player g := (player_ship g)\<lparr>vel_x := 0\<rparr>)\<rparr>
             else g
         | OTHER_EVENT \<Rightarrow> g))"

definition player_death :: "game \<Rightarrow> game" where
  "player_death g0 =
     (let g1 = g0\<lparr>lives := lives g0 - 1, level := level g0 + 1\<rparr>;
          g2 = (if lives_group g1 \<noteq> [] then
                  g1\<lparr>lives_group := group_remove (lives_group g1) (last (lives_group g1))\<rparr>
                else g1);
          g3 = g2\<lparr>sprite_group := group_remove (sprite_group g2) (player g2)\<rparr>;
          g4 = g3\<lparr>intro_ships := group_remove (intro_ships g3) (player g3)\<rparr>;
          g5 = g4\<lparr>lives_group := group_remove (lives_group g4) (player g4)\<rparr>
      in if lives g5 > 0 then g5\<lparr>is_respawning := True, respawn_timer := 180\<rparr>
         else g5\<lparr>game_over := True\<rparr>)"

text \<open>The blocks of \<^verbatim>\<open>update_scene\<close>, in the order of the source.\<close>

text \<open>Lines 296 to 302: the sprite updates, skipped while respawning.\<close>

definition scene_update_sprites :: "game \<Rightarrow> error + game" where
  "scene_update_sprites g =
     (if \<not> is_respawning g then
        (case update_all (enemies g) of
           Inl err \<Rightarrow> Inl err
         | Inr es1 \<Rightarrow>
             (case update_all es1 of
                Inl err \<Rightarrow> Inl err
              | Inr es2 \<Rightarrow>
                  (let st1 = group_update (sprite_group g) (ships g);
                       st2 = group_update (lives_group g) st1;
                       st3 = group_update (intro_ships g) st2;
                       p = st3 (player g);
                       st4 = st3(player g := p\<lparr>bullets := map Bullet_update (bullets p)\<rparr>)
                   in Inr ((set_enemies es2 g)\<lparr>ships := st4\<rparr>))))
      else Inr g)"

text \<open>Lines 326 to 345: the intro ship flies to \<^verbatim>\<open>intro_tar_pos\<close>.\<close>

definition intro_move :: "game \<Rightarrow> game" where
  "intro_move g =
     (let i = intro_left_ship g; ship = ships g i;
          target_x = fst (intro_tar_pos g); target_y = snd (intro_tar_pos g);
          dx = target_x - fst (ship_center ship);
          dy = target_y - snd (ship_center ship);
          distance = sqrt (real_of_int (dx\<^sup>2 + dy\<^sup>2));
          speed = 4
      in if distance > speed then
           g\<lparr>ships := (ships g)(i := ship
                \<lparr>rect_x := rect_x ship + py_int (real_of_int dx / distance * speed),
                 rect_y := rect_y ship + py_int (real_of_int dy / distance * speed)\<rparr>)\<rparr>
         else
           g\<lparr>ships := (ships g)(i := ship
                \<lparr>rect_x := target_x - 70 div 2, rect_y := target_y - 70 div 2, vel_y := 0\<rparr>),
             intro_moving := False, intro_done := True, player := i,
             sprite_group := group_add (sprite_group g) i,
             player_control_enable := True,
             intro_ships := group_remove (intro_ships g) i\<rparr>)"

text \<open>Lines 304 to 345, statement by statement.\<close>

definition intro_count :: "game \<Rightarrow> game" where
  "intro_count g = (if \<not> intro_done g then g\<lparr>intro_timer := intro_timer g + 1\<rparr> else g)"

definition intro_start_descent :: "game \<Rightarrow> game" where
  "intro_start_descent g =
     (if intro_timer g \<ge> 180 \<and> \<not> start_descent g then
        g\<lparr>start_descent := True,
          ships := (ships g)(player g := (player_ship g)\<lparr>vel_y := 2\<rparr>)\<rparr>
      else g)"

definition intro_start_moving :: "game \<Rightarrow> game" where
  "intro_start_moving g =
     (let g1 = g\<lparr>intro_timer := intro_timer g + 1\<rparr>
      in if intro_timer g1 = 180 then g1\<lparr>intro_moving := True\<rparr> else g1)"

definition intro_descend :: "game \<Rightarrow> game" where
  "intro_descend g =
     (let l = intro_left_ship g
      in if \<not> intro_done g \<and> intro_moving g then
           g\<lparr>ships := (ships g)(l := (ships g l)
                \<lparr>rect_y := rect_y (ships g l) + vel_y (ships g l)\<rparr>)\<rparr>
         else g)"

definition intro_land :: "game \<Rightarrow> game" where
  "intro_land g =
     (let l = intro_left_ship g
      in if rect_y (ships g l) \<ge> 1200 then
           g\<lparr>ships := (ships g)(l := (ships g l)\<lparr>rect_y := 1200, vel_y := 0\<rparr>),
             intro_done := True, player_control_enable := True\<rparr>
         else g)"

definition intro_fly :: "game \<Rightarrow> game" where
  "intro_fly g = (if intro_moving g then intro_move g else g)"

definition scene_intro :: "game \<Rightarrow> game" where
  "scene_intro g =
     intro_fly (intro_land (intro_descend (intro_start_moving (intro_start_descent
       (intro_count g)))))"

text \<open>
  Lines 347 to 359, the body of \<^verbatim>\<open>for enemy in hits\<close>: points by the state of the
  enemy, then the extra-life check.
\<close>

definition award :: "enemy \<Rightarrow> game \<Rightarrow> game" where
  "award e g =
     (let g1 = (if state e = Formation then g\<lparr>score := score g + 50\<rparr>
                else if state e = Diving then g\<lparr>score := score g + 150\<rparr>
                else g)
      in if score g1 \<ge> extra_life g1 then
           g1\<lparr>lives := lives g1 + 1, extra_life := extra_life g1 + 10000\<rparr>
         else g1)"

definition scene_scoring :: "game \<Rightarrow> game" where
  "scene_scoring g =
     (case groupcollide (enemies g) (bullets (player_ship g)) of
        (hits, rest, bs) \<Rightarrow>
          fold award hits
            ((set_enemies rest g)\<lparr>ships := (ships g)(player g := (player_ship g)\<lparr>bullets := bs\<rparr>)\<rparr>))"

text \<open>
  Lines 361 to 376. \<open>rnd\<close> is the value of \<^verbatim>\<open>random.random()\<close>; \<^verbatim>\<open>random.choice\<close>
  returns one element of a non-empty list, here the one at index \<open>pick\<close> (read modulo
  the length of the list).
\<close>

definition scene_dive_trigger :: "real \<Rightarrow> nat \<Rightarrow> game \<Rightarrow> game" where
  "scene_dive_trigger rnd pick g =
     (let dive_chance = 0.01 + 0.002 * real_of_int (level g - 1)
      in if intro_done g \<and> rnd < dive_chance then
           (let es = enemies g;
                formation_enemies = filter (\<lambda>i. state (es ! i) = Formation) [0..<length es]
            in if formation_enemies \<noteq> [] then
                 (let i = formation_enemies ! (pick mod length formation_enemies);
                      diver = es ! i;
                      diver' = diver
                        \<lparr>state := Diving,
                         dive_path := create_dive_path (center diver)
                                        (ship_center (player_ship g)) (formation_pos diver),
                         dive_point := 0\<rparr>
                  in set_enemies (es[i := diver']) g)
               else g)
       else g)"

text \<open>Lines 378 to 394.\<close>

definition scene_collision :: "game \<Rightarrow> game" where
  "scene_collision g =
     (if intro_done g \<and> spritecollideany (player_ship g) (enemies g) then
        (let g1 = player_death g;
             sp1 = (enemy_spawner g1)\<lparr>enemy_group := []\<rparr>;
             sp2 = sp1\<lparr>wave_size := min (wave_size sp1 + 15) 80\<rparr>;
             sp3 = spawn_wave sp2 (speed_multiplier g1)
         in g1\<lparr>enemy_spawner := sp3, is_respawning := True, respawn_timer := 180\<rparr>)
      else g)"

text \<open>
  The countdown of lines 397 to 400 and again 431 to 434; \<^verbatim>\<open>spawn_wave()\<close> is called
  without an argument, so with the default \<^verbatim>\<open>speed_multiplier=1.0\<close>.
\<close>

definition respawn_countdown :: "game \<Rightarrow> game" where
  "respawn_countdown g0 =
     (let g1 = g0\<lparr>respawn_timer := respawn_timer g0 - 1\<rparr>
      in if respawn_timer g1 \<le> 0 then
           g1\<lparr>is_respawning := False, enemy_spawner := spawn_wave (enemy_spawner g1) 1\<rparr>
         else g1)"

text \<open>Lines 396 to 414: the countdown, then a fresh ship replaces the player.\<close>

definition scene_respawn :: "game \<Rightarrow> game" where
  "scene_respawn g =
     (if is_respawning g then
        (let g1 = respawn_countdown g;
             g2 = g1\<lparr>sprite_group := group_remove (sprite_group g1) (player g1)\<rparr>;
             g3 = g2\<lparr>intro_ships := group_remove (intro_ships g2) (player g2)\<rparr>;
             n = next_ship g3;
             new_player = Ship_init\<lparr>rect_x := 1100 div 2 - 70 div 2, rect_y := 1200\<rparr>
         in g3\<lparr>ships := (ships g3)(n := new_player\<lparr>bullets := []\<rparr>), next_ship := n + 1,
               player := n, sprite_group := group_add (sprite_group g3) n\<rparr>)
      else g)"

text \<open>Lines 416 to 428.\<close>

definition scene_level_progression :: "game \<Rightarrow> game" where
  "scene_level_progression g =
     (if intro_done g \<and> \<not> is_respawning g \<and> length (enemies g) = 0 then
        (let g1 = g\<lparr>level := level g + 1\<rparr>;
             g2 = g1\<lparr>enemy_spawner := (enemy_spawner g1)
                       \<lparr>wave_size := min (40 + level g1 * 5) 80\<rparr>\<rparr>;
             g3 = g2\<lparr>speed_multiplier := 1.0 + real_of_int (level g2 - 1) * 0.15\<rparr>
         in g3\<lparr>is_respawning := True, respawn_timer := 120\<rparr>)
      else g)"

text \<open>Lines 430 to 434.\<close>

definition scene_respawn_again :: "game \<Rightarrow> game" where
  "scene_respawn_again g = (if is_respawning g then respawn_countdown g else g)"

text \<open>
  The part of \<^verbatim>\<open>update_scene\<close> from the collision check on (lines 378 to 438). The
  final \<^verbatim>\<open>if self.game_over: return\<close> is the last statement and changes nothing.
\<close>

definition scene_after_dive :: "game \<Rightarrow> game" where
  "scene_after_dive g =
     scene_respawn_again (scene_level_progression (scene_respawn (scene_collision g)))"

text \<open>The part of \<^verbatim>\<open>update_scene\<close> before the collision check (lines 295 to 376).\<close>

definition scene_before_collision :: "real \<Rightarrow> nat \<Rightarrow> game \<Rightarrow> error + game" where
  "scene_before_collision rnd pick g =
     (case scene_update_sprites g of
        Inl err \<Rightarrow> Inl err
      | Inr g1 \<Rightarrow> Inr (scene_dive_trigger rnd pick (scene_scoring (scene_intro g1))))"

definition update_scene :: "real \<Rightarrow> nat \<Rightarrow> game \<Rightarrow> error + game" where
  "update_scene rnd pick g =
     (case scene_before_collision rnd pick g of
        Inl err \<Rightarrow> Inl err
      | Inr g1 \<Rightarrow> Inr (scene_after_dive g1))"

text \<open>
  The states the scene can be in: after \<^verbatim>\<open>__init__\<close>, after a tick that raised nothing,
  after an event.
\<close>

inductive reachable :: "game \<Rightarrow> bool" where
  reach_init: "reachable GameScene_init"
| reach_tick: "reachable g \<Longrightarrow> update_scene rnd pick g = Inr g' \<Longrightarrow> reachable g'"
| reach_event: "reachable g \<Longrightarrow> reachable (handle_event ev g)"

subsection \<open>Measures and concrete agents used in the proofs\<close>



definition entering_at_waypoint :: enemy where
  "entering_at_waypoint =
     \<lparr> center = (430, 30), path = [(430, 30), (424, 63), (415, 95)], current_point = 0,
       speed = 4, formation_pos = (250, 100), state = Entering, dive_path = [],
       dive_point = 0 \<rparr>"

definition diving_at_waypoint :: enemy where
  "diving_at_waypoint =
     \<lparr> center = (550, 867), path = [], current_point = 0,
       speed = 4, formation_pos = (550, 100), state = Diving,
       dive_path = [(550, 867), (550, 1235), (550, 867), (550, 100)], dive_point = 0 \<rparr>"



subsection \<open>Invariants and concrete inputs of the scene\<close>

definition single_shot :: "ship_store \<Rightarrow> bool" where
  "single_shot st = (\<forall>i. length (bullets (st i)) \<le> 1)"

definition scene_inv :: "game \<Rightarrow> bool" where
  "scene_inv g = (score g < extra_life g \<and> single_shot (ships g))"

definition loaded_ship :: ship where
  "loaded_ship = Ship_shoot Ship_init"

text \<open>
  Concrete enemies and scenes: a formation enemy of the first slot, an enemy diving at
  the player, a freshly spawned one; a scene in play (intro over, player ship at the
  intro target) with \<open>n\<close> lives and game-over flag \<open>b\<close>; the same scene with no enemies.
  \<open>run_ticks\<close> repeats \<open>update_scene\<close>; \<open>wave_view\<close> is what the level logic reads and writes.
\<close>

definition formation_enemy :: enemy where
  "formation_enemy =
     (EnemyPath_init 250 (- 70) False (250, 100) 1)
       \<lparr>center := (250, 100), current_point := 99, state := Formation\<rparr>"

definition diving_enemy :: enemy where
  "diving_enemy =
     (EnemyPath_init 550 (- 70) False (550, 100) 1)
       \<lparr>center := (550, 1190), current_point := 99, state := Diving,
        dive_path := create_dive_path (550, 100) (550, 1200) (550, 100), dive_point := 1\<rparr>"

definition entering_enemy :: enemy where
  "entering_enemy = EnemyPath_init 400 (- 70) False (400, 100) 1"

definition playing_game :: "int \<Rightarrow> bool \<Rightarrow> game" where
  "playing_game n b =
     \<lparr> lives = n, lives_group = [0, 1, 2], respawn_timer = 0, is_respawning = False,
       intro_timer = 400, start_descent = True, intro_tar_pos = (1100 div 2, 1300 - 100),
       intro_moving = False, player_control_enable = True,
       enemy_spawner = EnemySpawner_init\<lparr>enemy_group := [formation_enemy, diving_enemy]\<rparr>,
       score = 9900, level = 1, speed_multiplier = 1, extra_life = 10000, game_over = b,
       intro_ships = [1, 2], intro_done = True, intro_left_ship = 0, player = 0,
       sprite_group = [0],
       ships = (\<lambda>_. Ship_init)(0 := Ship_init\<lparr>rect_x := 515, rect_y := 1165\<rparr>,
                                    1 := intro_ship 1, 2 := intro_ship 2),
       next_ship = 3 \<rparr>"

text \<open>
  Scenes in which the player's projectile is about to hit: \<open>veteran_ship\<close> stands at
  \<open>x = 216\<close> and fired 42 ticks ago (its projectile, at \<open>(248, 157)\<close>, reaches the
  formation enemy of the first slot in this tick); \<open>fresh_ship\<close> is a respawned ship at
  \<open>y = 1200\<close> that has just fired (its projectile meets the diving enemy in this tick).
  \<open>shooting_game sc s\<close> is the scene in play with score \<open>sc\<close> and player ship \<open>s\<close>;
  \<open>shot_sprites sc s\<close> is that scene after the sprite updates of one tick.
\<close>

definition veteran_ship :: ship where
  "veteran_ship =
     Ship_init\<lparr>rect_x := 216, rect_y := 1165,
               bullets := [Bullet_init\<lparr>b_rect_x := 248, b_rect_y := 157\<rparr>]\<rparr>"

definition fresh_ship :: ship where
  "fresh_ship = Ship_shoot (Ship_init\<lparr>rect_x := 1100 div 2 - 70 div 2, rect_y := 1200\<rparr>)"

definition shooting_game :: "int \<Rightarrow> ship \<Rightarrow> game" where
  "shooting_game sc s =
     (playing_game 3 False)\<lparr>score := sc, ships := (ships (playing_game 3 False))(0 := s)\<rparr>"

definition shot_sprites :: "int \<Rightarrow> ship \<Rightarrow> game" where
  "shot_sprites sc s =
     (set_enemies [formation_enemy, diving_enemy\<lparr>center := (550, 1198)\<rparr>] (shooting_game sc s))
       \<lparr>ships := (ships (playing_game 3 False))
          (0 := (Ship_update (Ship_update s))
                  \<lparr>bullets := map Bullet_update (bullets (Ship_update (Ship_update s)))\<rparr>)\<rparr>"


fun run_ticks :: "real \<Rightarrow> nat \<Rightarrow> nat \<Rightarrow> game \<Rightarrow> error + game" where
  "run_ticks rnd pick 0 g = Inr g"
| "run_ticks rnd pick (Suc k) g =
     (case update_scene rnd pick g of Inl err \<Rightarrow> Inl err | Inr g' \<Rightarrow> run_ticks rnd pick k g')"

definition cleared_game :: game where
  "cleared_game = set_enemies [] (playing_game 3 False)"

definition wave_view :: "game \<Rightarrow> bool \<times> int \<times> int \<times> real \<times> spawner" where
  "wave_view g = (is_respawning g, respawn_timer g, level g, speed_multiplier g, enemy_spawner g)"

section \<open>Properties\<close>

lemma total_points_eq: "total_points = 60"
  by (simp add: total_points_def points_per_loop_def py_int_def)

subsection \<open>Rounding never overshoots\<close>

lemma py_int_of_int [simp]: "py_int (real_of_int k) = k"
  by (simp add: py_int_def)

lemma rect_int_of_int [simp]: "rect_int (real_of_int k) = k"
  by (simp add: rect_int_def)

lemma rect_int_numeral [simp]: "rect_int (numeral k) = numeral k"
  using rect_int_of_int [of "numeral k"] by simp







subsection \<open>The waypoint step\<close>


lemma waypoint_step_arrived:
  "waypoint_step c spd t = Inr (c', True) \<Longrightarrow> c' = t"
  by (auto simp: waypoint_step_def Let_def split: if_splits)


subsection \<open>Entering agents reach the formation\<close>




subsection \<open>The entrance path\<close>

lemma last_map_upto:
  "0 \<le> n \<Longrightarrow> last (map f [0..n]) = f n"
  by (simp add: upto_rec2 [of 0 n])

lemma length_upto0: "length [0..n] = nat (n + 1)"
  by simp

lemma length_create_arc_path: "length (create_arc_path sx sy flip fp) = 100"
  by (simp add: create_arc_path_def Let_def total_points_eq split: prod.splits)

lemma create_arc_path_last:
  "last (create_arc_path sx sy flip fp) =
     (let (final_x, final_y) = spiral_point sx sy flip 59
      in (py_int (real_of_int final_x + real_of_int (fst fp - final_x) / 40 * 39),
          py_int (real_of_int final_y + real_of_int (snd fp - final_y) / 40 * 39)))"
  by (simp add: create_arc_path_def Let_def total_points_eq last_map_upto split: prod.splits)

lemma cos_59: "cos (59 * pi / 20) = - cos (pi / 20)"
proof -
  have "59 * pi / 20 = (pi - pi / 20) + 2 * pi" by simp
  then have "cos (59 * pi / 20) = cos (pi - pi / 20)"
    by (simp only: cos_periodic)
  then show ?thesis by (simp only: cos_pi_minus)
qed

lemma sin_59: "sin (59 * pi / 20) = sin (pi / 20)"
proof -
  have "59 * pi / 20 = (pi - pi / 20) + 2 * pi" by simp
  then have "sin (59 * pi / 20) = sin (pi - pi / 20)"
    by (simp only: sin_periodic)
  then show ?thesis by (simp only: sin_pi_minus)
qed

lemma cos_pi20_bounds: "2 / 3 < cos (pi / 20)" "cos (pi / 20) \<le> 1"
proof -
  have "cos (pi / 6) < cos (pi / 20)"
    by (rule cos_monotone_0_pi) (use pi_gt_zero in simp_all)
  moreover have "2 / 3 < sqrt 3 / 2"
  proof -
    have "(4 / 3)\<^sup>2 < (3::real)" by (simp add: power2_eq_square)
    then have "4 / 3 < sqrt 3" by (rule real_less_rsqrt)
    then show ?thesis by simp
  qed
  ultimately show "2 / 3 < cos (pi / 20)" by (simp add: cos_30)
  show "cos (pi / 20) \<le> 1" by simp
qed

lemma sin_pi20_bounds: "0 \<le> sin (pi / 20)" "sin (pi / 20) < 1 / 4"
proof -
  show "0 \<le> sin (pi / 20)" by (rule sin_ge_zero) (use pi_gt_zero in simp_all)
  have "sin (pi / 20) \<le> pi / 20" by (rule sin_x_le_x) simp
  also have "\<dots> < 1 / 4" using pi_less_4 by simp
  finally show "sin (pi / 20) < 1 / 4" .
qed

lemma spiral_point_59: "spiral_point 250 (- 70) False 59 = (247, 374)"
proof -
  have x: "py_int (250 + 3 * - cos (pi / 20)) = 247"
    using cos_pi20_bounds unfolding py_int_def by (simp; linarith)
  have y: "py_int (30 + 3 * sin (pi / 20) + 350 * 59 / 60) = 374"
    using sin_pi20_bounds unfolding py_int_def by (simp; linarith)
  have ang: "59 / 40 * 2 * pi = 59 * pi / 20" by simp
  show ?thesis
    unfolding spiral_point_def Let_def total_points_eq points_per_loop_def
    using x y by (simp add: cos_59 sin_59)
qed

text \<open>
  Claim C2. The path always has 100 waypoints (\<open>length_create_arc_path\<close>), but its last
  element is not the formation slot: the interpolation loop runs over \<open>i = 0, \<dots>, 39\<close>
  of 40 steps and stops one step short. For the first agent of a wave (start
  \<open>(250, -70)\<close>, slot \<open>(250, 100)\<close>) the path ends at \<open>(249, 106)\<close>.
\<close>

theorem arc_path_last_value:
  "last (create_arc_path 250 (- 70) False (250, 100)) = (249, 106)"
  by (simp add: create_arc_path_last spiral_point_59 py_int_def)

subsection \<open>No division by zero\<close>

lemma waypoint_step_no_error: "0 < spd \<Longrightarrow> waypoint_step c spd t \<noteq> Inl err"
  by (auto simp: waypoint_step_def Let_def)

lemma update_total: "0 < speed e \<Longrightarrow> \<exists>e'. update e = Inr e'"
  using waypoint_step_no_error [of "speed e"]
  by (cases "state e") (auto simp: update_def split: sum.splits prod.splits)

lemma waypoint_step_at_target:
  "0 < spd \<Longrightarrow> waypoint_step t spd t = Inr (t, True)"
  by (simp add: waypoint_step_def)

lemma waypoint_step_move_nonzero:
  assumes "0 < spd" "waypoint_step c spd t = Inr (c', False)"
  shows "0 < sqrt (real_of_int ((fst t - fst c)\<^sup>2 + (snd t - snd c)\<^sup>2))"
proof -
  have "spd \<le> sqrt (real_of_int ((fst t - fst c)\<^sup>2 + (snd t - snd c)\<^sup>2))"
    using assms(2) unfolding waypoint_step_def Let_def by (simp split: if_splits)
  with assms(1) show ?thesis by linarith
qed

lemma waypoint_step_raises:
  "spd \<le> 0 \<Longrightarrow> waypoint_step t spd t = Inl ZeroDivisionError"
  by (simp add: waypoint_step_def)

text \<open>
  Claim C9. With a positive speed the update never raises \<open>ZeroDivisionError\<close>, in any
  state. An agent that stands on its current waypoint (distance 0) is snapped to it and
  its index advances, in \<open>Entering\<close> and in \<open>Diving\<close> alike; and whenever the step takes
  the normalising branch (the index does not advance), the distance is positive.
\<close>

theorem update_no_division_by_zero:
  assumes "0 < speed e"
  shows "(\<exists>e'. update e = Inr e')
    \<and> (state e = Entering \<and> int (current_point e) < int (length (path e)) - 1
         \<and> center e = path e ! current_point e
       \<longrightarrow> update e = Inr (e\<lparr>center := path e ! current_point e,
                               current_point := current_point e + 1\<rparr>))
    \<and> (state e = Diving \<and> dive_point e < length (dive_path e)
         \<and> center e = dive_path e ! dive_point e
       \<longrightarrow> update e = Inr (e\<lparr>center := dive_path e ! dive_point e,
                               dive_point := dive_point e + 1\<rparr>))
    \<and> (\<forall>c t c'. waypoint_step c (speed e) t = Inr (c', False)
         \<longrightarrow> 0 < sqrt (real_of_int ((fst t - fst c)\<^sup>2 + (snd t - snd c)\<^sup>2)))"
proof (intro conjI impI allI)
  show "\<exists>e'. update e = Inr e'" by (rule update_total [OF assms])
next
  assume "state e = Entering \<and> int (current_point e) < int (length (path e)) - 1
         \<and> center e = path e ! current_point e"
  then show "update e = Inr (e\<lparr>center := path e ! current_point e,
                               current_point := current_point e + 1\<rparr>)"
    using waypoint_step_at_target [OF assms, of "path e ! current_point e"]
    by (simp add: update_def)
next
  assume "state e = Diving \<and> dive_point e < length (dive_path e)
         \<and> center e = dive_path e ! dive_point e"
  then show "update e = Inr (e\<lparr>center := dive_path e ! dive_point e,
                               dive_point := dive_point e + 1\<rparr>)"
    using waypoint_step_at_target [OF assms, of "dive_path e ! dive_point e"]
    by (simp add: update_def)
next
  fix c t c'
  assume "waypoint_step c (speed e) t = Inr (c', False)"
  then show "0 < sqrt (real_of_int ((fst t - fst c)\<^sup>2 + (snd t - snd c)\<^sup>2))"
    by (rule waypoint_step_move_nonzero [OF assms])
qed

theorem update_no_division_by_zero_witness:
  "0 < speed entering_at_waypoint
   \<and> update entering_at_waypoint = Inr (entering_at_waypoint\<lparr>current_point := 1\<rparr>)
   \<and> 0 < speed diving_at_waypoint
   \<and> update diving_at_waypoint = Inr (diving_at_waypoint\<lparr>dive_point := 1\<rparr>)"
  using update_no_division_by_zero [of entering_at_waypoint]
        update_no_division_by_zero [of diving_at_waypoint]
  by (simp add: entering_at_waypoint_def diving_at_waypoint_def)

text \<open>The hypothesis is needed: with speed 0 the same agent raises.\<close>

lemma update_raises_without_speed:
  "update (entering_at_waypoint\<lparr>speed := 0\<rparr>) = Inl ZeroDivisionError"
  by (simp add: update_def entering_at_waypoint_def waypoint_step_def)

subsection \<open>A slow agent that never arrives\<close>






subsection \<open>The wave spawner\<close>

lemma spawn_cols_count:
  "snd (spawn_cols ws sm sx row cols (grp, c)) = (if c \<ge> ws then c else min ws (c + int (length cols)))"
  by (induction cols arbitrary: grp c) (auto simp: Let_def)

lemma spawn_cols_length:
  "int (length (fst (spawn_cols ws sm sx row cols (grp, c)))) =
     int (length grp) + (snd (spawn_cols ws sm sx row cols (grp, c)) - c)"
  by (induction cols arbitrary: grp c) (auto simp: Let_def)

lemma spawn_cols_prefix:
  "\<exists>new. fst (spawn_cols ws sm sx row cols (grp, c)) = grp @ new
      \<and> (\<forall>e \<in> set new. state e = Entering \<and> speed e = 4 * sm)"
proof (induction cols arbitrary: grp c)
  case Nil
  show ?case by simp
next
  case (Cons col cols)
  show ?case
  proof (cases "c \<ge> ws")
    case True
    then show ?thesis by simp
  next
    case False
    let ?e = "EnemyPath_init (sx + col * 150) (- 70) False (sx + col * 150, 100 + row * 90) sm"
    from Cons [of "grp @ [?e]" "c + 1"] obtain new where
      new: "fst (spawn_cols ws sm sx row cols (grp @ [?e], c + 1)) = (grp @ [?e]) @ new"
      "\<forall>e \<in> set new. state e = Entering \<and> speed e = 4 * sm" by blast
    have e: "state ?e = Entering \<and> speed ?e = 4 * sm"
      by (simp add: EnemyPath_init_def Let_def)
    have "fst (spawn_cols ws sm sx row (col # cols) (grp, c)) = grp @ (?e # new)"
      using False new(1) by (simp add: Let_def)
    moreover have "\<forall>e \<in> set (?e # new). state e = Entering \<and> speed e = 4 * sm"
      using new(2) e by simp
    ultimately show ?thesis by blast
  qed
qed

lemma spawn_rows_prefix:
  "\<exists>new. fst (spawn_rows ws sm sx cols rows (grp, c)) = grp @ new
      \<and> (\<forall>e \<in> set new. state e = Entering \<and> speed e = 4 * sm)"
proof (induction rows arbitrary: grp c)
  case Nil
  show ?case by simp
next
  case (Cons row rows)
  obtain grp1 c1 where st: "spawn_cols ws sm sx row [0..cols - 1] (grp, c) = (grp1, c1)"
    by (cases "spawn_cols ws sm sx row [0..cols - 1] (grp, c)")
  from spawn_cols_prefix [of ws sm sx row "[0..cols - 1]" grp c] st obtain new1 where
    n1: "grp1 = grp @ new1" "\<forall>e \<in> set new1. state e = Entering \<and> speed e = 4 * sm" by auto
  from Cons [of grp1 c1] obtain new2 where
    n2: "fst (spawn_rows ws sm sx cols rows (grp1, c1)) = grp1 @ new2"
        "\<forall>e \<in> set new2. state e = Entering \<and> speed e = 4 * sm" by blast
  have "fst (spawn_rows ws sm sx cols (row # rows) (grp, c)) = grp @ (new1 @ new2)"
    using st n1(1) n2(1) by simp
  moreover have "\<forall>e \<in> set (new1 @ new2). state e = Entering \<and> speed e = 4 * sm"
    using n1(2) n2(2) by auto
  ultimately show ?case by blast
qed

lemma spawn_wave_unfold:
  "enemy_group (spawn_wave sp sm) =
     fst (spawn_rows (wave_size sp) sm
            ((1100 - (min 5 ((wave_size sp + 4 - 1) div 4) - 1) * 150) div 2)
            (min 5 ((wave_size sp + 4 - 1) div 4)) [0..4 - 1] (enemy_group sp, 0))"
  unfolding spawn_wave_def Let_def by (simp add: split_beta)

lemma spawn_wave_appends:
  "\<exists>new. enemy_group (spawn_wave sp sm) = enemy_group sp @ new
      \<and> (\<forall>e \<in> set new. state e = Entering \<and> speed e = 4 * sm)"
  unfolding spawn_wave_unfold by (rule spawn_rows_prefix)

lemma spawn_wave_fields:
  "wave_size (spawn_wave sp sm) = wave_size sp"
  unfolding spawn_wave_def Let_def by (simp add: split_beta)

lemma spawn_rows_count:
  "snd (spawn_rows ws sm sx cols rows (grp, c)) =
     (if c \<ge> ws then c else min ws (c + int (length rows) * int (length [0..cols - 1])))"
proof (induction rows arbitrary: grp c)
  case Nil
  show ?case by simp
next
  case (Cons row rows)
  define n where "n = int (length [0..cols - 1])"
  define p where "p = int (length rows) * n"
  have n0: "0 \<le> n" and p0: "0 \<le> p" by (simp_all add: n_def p_def)
  obtain grp1 c1 where st: "spawn_cols ws sm sx row [0..cols - 1] (grp, c) = (grp1, c1)"
    by (cases "spawn_cols ws sm sx row [0..cols - 1] (grp, c)")
  have c1: "c1 = (if c \<ge> ws then c else min ws (c + n))"
    using spawn_cols_count [of ws sm sx row "[0..cols - 1]" grp c] st by (simp add: n_def)
  have ih: "snd (spawn_rows ws sm sx cols rows (grp1, c1)) =
     (if c1 \<ge> ws then c1 else min ws (c1 + p))"
    using Cons [of grp1 c1] by (simp add: p_def n_def)
  have "snd (spawn_rows ws sm sx cols (row # rows) (grp, c)) =
          snd (spawn_rows ws sm sx cols rows (grp1, c1))"
    using st by simp
  also have "\<dots> = (if c1 \<ge> ws then c1 else min ws (c1 + p))"
    by (rule ih)
  also have "\<dots> = (if c \<ge> ws then c else min ws (c + (n + p)))"
    unfolding c1 using n0 p0 by (simp add: min_def)
  also have "n + p = int (length (row # rows)) * int (length [0..cols - 1])"
    by (simp add: p_def n_def algebra_simps)
  finally show ?case .
qed

lemma spawn_rows_length:
  "int (length (fst (spawn_rows ws sm sx cols rows (grp, c)))) =
     int (length grp) + (snd (spawn_rows ws sm sx cols rows (grp, c)) - c)"
proof (induction rows arbitrary: grp c)
  case Nil
  show ?case by simp
next
  case (Cons row rows)
  obtain grp1 c1 where st: "spawn_cols ws sm sx row [0..cols - 1] (grp, c) = (grp1, c1)"
    by (cases "spawn_cols ws sm sx row [0..cols - 1] (grp, c)")
  have l1: "int (length grp1) = int (length grp) + (c1 - c)"
    using spawn_cols_length [of ws sm sx row "[0..cols - 1]" grp c] st by simp
  have "int (length (fst (spawn_rows ws sm sx cols rows (grp1, c1)))) =
     int (length grp1) + (snd (spawn_rows ws sm sx cols rows (grp1, c1)) - c1)"
    by (rule Cons)
  then show ?case using st l1 by simp
qed

lemma upto_0_3: "[0..3] = [0, 1, 2, 3::int]"
  by (simp add: upto_rec1)

lemma upto_0_4: "[0..4] = [0, 1, 2, 3, 4::int]"
  by (simp add: upto_rec1)

lemma EnemyPath_init_fields:
  "formation_pos (EnemyPath_init sx sy flip fp sm) = fp"
  "state (EnemyPath_init sx sy flip fp sm) = Entering"
  "speed (EnemyPath_init sx sy flip fp sm) = 4 * sm"
  "current_point (EnemyPath_init sx sy flip fp sm) = 0"
  "path (EnemyPath_init sx sy flip fp sm) = create_arc_path sx sy flip fp"
  by (simp_all add: EnemyPath_init_def Let_def)

lemma spawn_wave_count:
  "int (length (enemy_group (spawn_wave sp sm))) =
     int (length (enemy_group sp))
       + max 0 (min (wave_size sp) (4 * min 5 ((wave_size sp + 3) div 4)))"
proof -
  define ws where "ws = wave_size sp"
  define cols where "cols = min 5 ((ws + 4 - 1) div 4)"
  define sx where "sx = (1100 - (cols - 1) * 150) div 2"
  have eg: "enemy_group (spawn_wave sp sm) =
      fst (spawn_rows ws sm sx cols [0..4 - 1] (enemy_group sp, 0))"
    unfolding spawn_wave_unfold ws_def cols_def sx_def ..
  have n: "int (length [0..cols - 1]) = max 0 cols" by simp
  have r: "int (length [0..(4::int) - 1]) = 4" by simp
  have cnt: "snd (spawn_rows ws sm sx cols [0..4 - 1] (enemy_group sp, 0)) =
      (if 0 \<ge> ws then 0 else min ws (4 * max 0 cols))"
    unfolding spawn_rows_count n r by simp
  have cols_eq: "cols = min 5 ((ws + 3) div 4)" by (simp add: cols_def)
  have d1: "(ws + 3) div 4 \<le> 0" if "ws \<le> 0" using that by presburger
  have d2: "0 < (ws + 3) div 4" if "0 < ws" using that by presburger
  have sign: "ws \<le> 0 \<Longrightarrow> cols \<le> 0" "0 < ws \<Longrightarrow> 0 < cols"
    unfolding cols_eq using d1 d2 by linarith+
  have E: "(if 0 \<ge> ws then 0 else min ws (4 * max 0 cols)) = max 0 (min ws (4 * cols))"
  proof (cases "ws \<le> 0")
    case True
    then have "min ws (4 * cols) \<le> 0" by simp
    then have "max 0 (min ws (4 * cols)) = 0" by simp
    with True show ?thesis by simp
  next
    case False
    then have "0 < cols" using sign(2) by simp
    then have "max 0 cols = cols" "0 \<le> min ws (4 * cols)" using False by simp_all
    then show ?thesis using False by simp
  qed
  have S: "snd (spawn_rows ws sm sx cols [0..4 - 1] (enemy_group sp, 0)) =
      max 0 (min ws (4 * cols))"
    using cnt E by (simp only:)
  have L: "int (length (fst (spawn_rows ws sm sx cols [0..4 - 1] (enemy_group sp, 0)))) =
      int (length (enemy_group sp))
        + (snd (spawn_rows ws sm sx cols [0..4 - 1] (enemy_group sp, 0)) - 0)"
    by (rule spawn_rows_length)
  have "int (length (enemy_group (spawn_wave sp sm))) =
      int (length (enemy_group sp)) + max 0 (min ws (4 * cols))"
    unfolding eg L S by (simp only: diff_zero)
  then show ?thesis unfolding cols_eq ws_def .
qed

lemma spawn_wave_40:
  "enemy_group (spawn_wave (sp\<lparr>wave_size := 40\<rparr>) sm) =
     enemy_group sp @
       concat (map (\<lambda>row. map (\<lambda>col. EnemyPath_init (250 + col * 150) (- 70) False
                                        (250 + col * 150, 100 + row * 90) sm)
                              [0, 1, 2, 3, 4])
                   [0, 1, 2, 3])"
  unfolding spawn_wave_unfold by (simp add: upto_0_3 upto_0_4 Let_def)

subsection \<open>One projectile per ship\<close>

lemma Ship_shoot_loaded: "bullets s \<noteq> [] \<Longrightarrow> Ship_shoot s = s"
  by (simp add: Ship_shoot_def)

lemma Ship_shoot_empty: "bullets s = [] \<Longrightarrow> length (bullets (Ship_shoot s)) = 1"
  by (simp add: Ship_shoot_def)

lemma Ship_shoot_le1: "length (bullets s) \<le> 1 \<Longrightarrow> length (bullets (Ship_shoot s)) \<le> 1"
  by (simp add: Ship_shoot_def)

lemma Ship_update_bullets_le: "length (bullets (Ship_update s)) \<le> length (bullets s)"
  by (simp add: Ship_update_def Let_def)

lemma Ship_update_le1: "length (bullets s) \<le> 1 \<Longrightarrow> length (bullets (Ship_update s)) \<le> 1"
  using Ship_update_bullets_le [of s] by linarith

lemma single_shot_upd:
  "single_shot st \<Longrightarrow> length (bullets s) \<le> 1 \<Longrightarrow> single_shot (st(i := s))"
  by (simp add: single_shot_def)

lemma single_shot_at: "single_shot st \<Longrightarrow> length (bullets (st i)) \<le> 1"
  by (simp add: single_shot_def)

lemma group_update_single_shot:
  "single_shot st \<Longrightarrow> single_shot (group_update grp st)"
proof (induction grp arbitrary: st)
  case Nil
  then show ?case by simp
next
  case (Cons i grp)
  have "single_shot (st(i := Ship_update (st i)))"
    using Cons.prems by (intro single_shot_upd Ship_update_le1 single_shot_at)
  then show ?case using Cons.IH by simp
qed

lemma groupcollide_bullets_step:
  "snd (snd (groupcollide (e # es) bs)) =
     snd (snd (groupcollide es (filter (\<lambda>b. \<not> colliderect (enemy_rect e) (bullet_rect b)) bs)))"
  by (simp add: Let_def split: prod.splits)

lemma groupcollide_bullets_le:
  "length (snd (snd (groupcollide es bs))) \<le> length bs"
proof (induction es arbitrary: bs)
  case Nil
  show ?case by simp
next
  case (Cons e es)
  let ?bs' = "filter (\<lambda>b. \<not> colliderect (enemy_rect e) (bullet_rect b)) bs"
  have "length (snd (snd (groupcollide es ?bs'))) \<le> length ?bs'" by (rule Cons.IH)
  also have "\<dots> \<le> length bs" by (rule length_filter_le)
  finally show ?case unfolding groupcollide_bullets_step .
qed

subsection \<open>An invariant of the scene\<close>

lemma set_enemies_fields [simp]:
  "score (set_enemies es g) = score g"
  "extra_life (set_enemies es g) = extra_life g"
  "lives (set_enemies es g) = lives g"
  "level (set_enemies es g) = level g"
  "ships (set_enemies es g) = ships g"
  "player (set_enemies es g) = player g"
  "enemies (set_enemies es g) = es"
  "intro_done (set_enemies es g) = intro_done g"
  "is_respawning (set_enemies es g) = is_respawning g"
  "game_over (set_enemies es g) = game_over g"
  "speed_multiplier (set_enemies es g) = speed_multiplier g"
  "respawn_timer (set_enemies es g) = respawn_timer g"
  by (simp_all add: set_enemies_def enemies_def)

lemma award_frame [simp]:
  "ships (award e g) = ships g"
  "level (award e g) = level g"
  "enemy_spawner (award e g) = enemy_spawner g"
  "player (award e g) = player g"
  "intro_done (award e g) = intro_done g"
  "is_respawning (award e g) = is_respawning g"
  "game_over (award e g) = game_over g"
  "speed_multiplier (award e g) = speed_multiplier g"
  "respawn_timer (award e g) = respawn_timer g"
  by (simp_all add: award_def Let_def)

lemma award_keeps_below:
  "score g < extra_life g \<Longrightarrow> score (award e g) < extra_life (award e g)"
  by (simp add: award_def Let_def)

lemma fold_award_frame [simp]:
  "ships (fold award hits g) = ships g"
  "level (fold award hits g) = level g"
  "enemy_spawner (fold award hits g) = enemy_spawner g"
  "player (fold award hits g) = player g"
  "intro_done (fold award hits g) = intro_done g"
  "is_respawning (fold award hits g) = is_respawning g"
  "game_over (fold award hits g) = game_over g"
  "speed_multiplier (fold award hits g) = speed_multiplier g"
  "respawn_timer (fold award hits g) = respawn_timer g"
  by (induction hits arbitrary: g; simp)+

lemma fold_award_keeps_below:
  "score g < extra_life g \<Longrightarrow> score (fold award hits g) < extra_life (fold award hits g)"
  by (induction hits arbitrary: g) (simp_all add: award_keeps_below)

lemma scene_scoring_inv: "scene_inv g \<Longrightarrow> scene_inv (scene_scoring g)"
proof -
  assume inv: "scene_inv g"
  obtain hits rest bs where gc: "groupcollide (enemies g) (bullets (player_ship g)) = (hits, rest, bs)"
    by (cases "groupcollide (enemies g) (bullets (player_ship g))") auto
  have "length bs \<le> length (bullets (player_ship g))"
    using groupcollide_bullets_le [of "enemies g" "bullets (player_ship g)"] gc by simp
  moreover have "length (bullets (player_ship g)) \<le> 1"
    using inv single_shot_at [of "ships g" "player g"]
    by (simp add: scene_inv_def player_ship_def)
  ultimately have "length bs \<le> 1" by linarith
  then have "single_shot ((ships g)(player g := (player_ship g)\<lparr>bullets := bs\<rparr>))"
    using inv by (intro single_shot_upd) (simp_all add: scene_inv_def)
  moreover have "score g < extra_life g" using inv by (simp add: scene_inv_def)
  ultimately show ?thesis
    by (simp add: scene_scoring_def gc scene_inv_def fold_award_keeps_below)
qed

lemma single_shot_init: "single_shot (\<lambda>_. Ship_init)"
  by (simp add: single_shot_def Ship_init_def)

lemma GameScene_init_inv: "scene_inv GameScene_init"
  by (simp add: scene_inv_def GameScene_init_def single_shot_def Ship_init_def intro_ship_def)

lemma single_shot_same_bullets:
  "single_shot st \<Longrightarrow> bullets s = bullets (st j) \<Longrightarrow> single_shot (st(i := s))"
  using single_shot_at [of st j] by (simp add: single_shot_def)

lemma scene_update_sprites_inv:
  assumes "scene_inv g" "scene_update_sprites g = Inr g'"
  shows "scene_inv g'"
proof (cases "is_respawning g")
  case True
  with assms show ?thesis by (simp add: scene_update_sprites_def)
next
  case False
  let ?st3 = "group_update (intro_ships g) (group_update (lives_group g)
                (group_update (sprite_group g) (ships g)))"
  have s3: "single_shot ?st3"
    using assms(1) by (simp add: scene_inv_def group_update_single_shot)
  have "single_shot (?st3(player g := (?st3 (player g))
           \<lparr>bullets := map Bullet_update (bullets (?st3 (player g)))\<rparr>))"
    using s3 single_shot_at [OF s3, of "player g"] by (intro single_shot_upd) simp_all
  with assms False show ?thesis
    by (auto simp: scene_update_sprites_def scene_inv_def Let_def split: sum.splits)
qed

lemma intro_move_inv: "scene_inv g \<Longrightarrow> scene_inv (intro_move g)"
  by (simp add: intro_move_def scene_inv_def Let_def single_shot_def)

lemma intro_steps_inv:
  "scene_inv g \<Longrightarrow> scene_inv (intro_count g)"
  "scene_inv g \<Longrightarrow> scene_inv (intro_start_descent g)"
  "scene_inv g \<Longrightarrow> scene_inv (intro_start_moving g)"
  "scene_inv g \<Longrightarrow> scene_inv (intro_descend g)"
  "scene_inv g \<Longrightarrow> scene_inv (intro_land g)"
  by (simp_all add: intro_count_def intro_start_descent_def intro_start_moving_def
        intro_descend_def intro_land_def scene_inv_def single_shot_def player_ship_def Let_def)

lemma intro_fly_inv: "scene_inv g \<Longrightarrow> scene_inv (intro_fly g)"
  by (simp add: intro_fly_def intro_move_inv)

lemma scene_intro_inv: "scene_inv g \<Longrightarrow> scene_inv (scene_intro g)"
  unfolding scene_intro_def by (intro intro_fly_inv intro_steps_inv)

lemma scene_dive_trigger_inv: "scene_inv g \<Longrightarrow> scene_inv (scene_dive_trigger rnd pick g)"
  by (simp add: scene_dive_trigger_def scene_inv_def Let_def)

lemma player_death_frame [simp]:
  "score (player_death g) = score g"
  "extra_life (player_death g) = extra_life g"
  "ships (player_death g) = ships g"
  by (simp_all add: player_death_def Let_def)

lemma scene_collision_inv: "scene_inv g \<Longrightarrow> scene_inv (scene_collision g)"
  by (simp add: scene_collision_def scene_inv_def Let_def)

lemma respawn_countdown_frame [simp]:
  "score (respawn_countdown g) = score g"
  "extra_life (respawn_countdown g) = extra_life g"
  "ships (respawn_countdown g) = ships g"
  by (simp_all add: respawn_countdown_def Let_def)

lemma scene_respawn_inv: "scene_inv g \<Longrightarrow> scene_inv (scene_respawn g)"
  by (simp add: scene_respawn_def scene_inv_def Let_def single_shot_def Ship_init_def)

lemma scene_level_progression_inv: "scene_inv g \<Longrightarrow> scene_inv (scene_level_progression g)"
  by (simp add: scene_level_progression_def scene_inv_def Let_def)

lemma scene_respawn_again_inv: "scene_inv g \<Longrightarrow> scene_inv (scene_respawn_again g)"
  by (simp add: scene_respawn_again_def scene_inv_def)

lemma scene_after_dive_inv: "scene_inv g \<Longrightarrow> scene_inv (scene_after_dive g)"
  unfolding scene_after_dive_def
  by (intro scene_respawn_again_inv scene_level_progression_inv scene_respawn_inv
        scene_collision_inv)

lemma update_scene_inv:
  assumes "scene_inv g" "update_scene rnd pick g = Inr g'"
  shows "scene_inv g'"
proof -
  from assms(2) obtain g1 where
    g1: "scene_update_sprites g = Inr g1"
    and g': "g' = scene_after_dive (scene_dive_trigger rnd pick (scene_scoring (scene_intro g1)))"
    by (auto simp: update_scene_def scene_before_collision_def split: sum.splits)
  have "scene_inv g1" by (rule scene_update_sprites_inv [OF assms(1) g1])
  then show ?thesis unfolding g'
    by (intro scene_after_dive_inv scene_dive_trigger_inv scene_scoring_inv scene_intro_inv)
qed

lemma handle_event_inv: "scene_inv g \<Longrightarrow> scene_inv (handle_event ev g)"
proof -
  assume inv: "scene_inv g"
  then have ss: "single_shot (ships g)" and sc: "score g < extra_life g"
    by (simp_all add: scene_inv_def)
  have p: "length (bullets (player_ship g)) \<le> 1"
    using single_shot_at [OF ss, of "player g"] by (simp add: player_ship_def)
  have a: "single_shot ((ships g)(player g := (player_ship g)\<lparr>vel_x := v\<rparr>))" for v
    using ss p by (intro single_shot_upd) simp_all
  have b: "single_shot ((ships g)(player g := Ship_shoot (player_ship g)))"
    using ss p by (intro single_shot_upd Ship_shoot_le1)
  show ?thesis
    using inv a b sc GameScene_init_inv
    by (cases ev) (auto simp: handle_event_def scene_inv_def)
qed

lemma reachable_inv: "reachable g \<Longrightarrow> scene_inv g"
  by (induction rule: reachable.induct)
     (auto intro: GameScene_init_inv update_scene_inv handle_event_inv)

subsection \<open>Shooting and scoring\<close>

text \<open>
  Claim C6. Shooting while the ship owns a projectile changes nothing; shooting with no
  projectile creates exactly one; \<open>Ship.update\<close> only removes projectiles; and in every
  state the scene can reach, every ship of the store owns at most one projectile.
\<close>

theorem single_shot_rule:
  "(bullets s \<noteq> [] \<longrightarrow> Ship_shoot s = s)
   \<and> (bullets s = [] \<longrightarrow> length (bullets (Ship_shoot s)) = 1)
   \<and> (length (bullets s) \<le> 1 \<longrightarrow> length (bullets (Ship_update s)) \<le> 1)
   \<and> (reachable g \<longrightarrow> length (bullets (ships g i)) \<le> 1)"
proof (intro conjI impI)
  assume "reachable g"
  then have "single_shot (ships g)" using reachable_inv by (simp add: scene_inv_def)
  then show "length (bullets (ships g i)) \<le> 1" by (rule single_shot_at)
qed (use Ship_update_bullets_le [of s] in \<open>simp_all add: Ship_shoot_loaded Ship_shoot_empty\<close>)

theorem single_shot_rule_witness:
  "bullets loaded_ship \<noteq> [] \<and> Ship_shoot loaded_ship = loaded_ship
   \<and> bullets Ship_init = [] \<and> length (bullets (Ship_shoot Ship_init)) = 1
   \<and> length (bullets loaded_ship) \<le> 1 \<and> length (bullets (Ship_update loaded_ship)) \<le> 1
   \<and> reachable (handle_event (KEYDOWN K_SPACE) GameScene_init)
   \<and> length (bullets (ships (handle_event (KEYDOWN K_SPACE) GameScene_init) 0)) \<le> 1"
proof -
  have r: "reachable (handle_event (KEYDOWN K_SPACE) GameScene_init)"
    by (intro reach_event reach_init)
  have l: "bullets loaded_ship \<noteq> []" "length (bullets loaded_ship) \<le> 1"
    by (simp_all add: loaded_ship_def Ship_shoot_def Ship_init_def)
  have i: "bullets Ship_init = []" by (simp add: Ship_init_def)
  show ?thesis
    using single_shot_rule [of loaded_ship "handle_event (KEYDOWN K_SPACE) GameScene_init" 0]
          single_shot_rule [of Ship_init GameScene_init 0] r l i
    by simp
qed

lemma shoot_through_event:
  "length (bullets (player_ship (handle_event (KEYDOWN K_SPACE) GameScene_init))) = 1"
  by (simp add: handle_event_def GameScene_init_def player_ship_def Ship_shoot_def
        intro_ship_def Ship_init_def)

text \<open>
  Claim C10. Destroying an enemy that is still \<open>Entering\<close> leaves the score unchanged, and
  with the score below the threshold (every reachable state) the whole scene state, the
  threshold and the lives included, is unchanged by that kill.
\<close>

theorem entering_kill_scores_nothing:
  assumes "state e = Entering"
  shows "score (award e g) = score g \<and> (score g < extra_life g \<longrightarrow> award e g = g)"
  using assms by (simp add: award_def Let_def)

subsection \<open>Scoring on a concrete scene\<close>

lemma enemy_states [simp]:
  "state formation_enemy = Formation" "state diving_enemy = Diving"
  "state entering_enemy = Entering"
  by (simp_all add: formation_enemy_def diving_enemy_def entering_enemy_def EnemyPath_init_fields)

theorem entering_kill_scores_nothing_witness:
  "state entering_enemy = Entering
   \<and> score (playing_game 3 False) < extra_life (playing_game 3 False)
   \<and> score (award entering_enemy (playing_game 3 False)) = score (playing_game 3 False)
   \<and> award entering_enemy (playing_game 3 False) = (playing_game 3 False)"
proof -
  have "score (playing_game 3 False) < extra_life (playing_game 3 False)" by (simp add: playing_game_def)
  then show ?thesis
    using entering_kill_scores_nothing [of entering_enemy "playing_game 3 False"] by simp
qed

subsection \<open>The dive path\<close>

lemma update_keeps_dive_path:
  "update e = Inr e' \<Longrightarrow> dive_path e' = dive_path e"
  by (cases "state e")
     (auto simp: update_def split: if_splits sum.splits prod.splits)

lemma scene_dive_trigger_length:
  "length (enemies (scene_dive_trigger rnd pick g)) = length (enemies g)"
  by (simp add: scene_dive_trigger_def Let_def)

lemma scene_dive_trigger_nth:
  assumes "i < length (enemies g)"
  shows "enemies (scene_dive_trigger rnd pick g) ! i = enemies g ! i
     \<or> (state (enemies g ! i) = Formation
        \<and> enemies (scene_dive_trigger rnd pick g) ! i =
            (enemies g ! i)
              \<lparr>state := Diving,
               dive_path := create_dive_path (center (enemies g ! i))
                              (ship_center (player_ship g)) (formation_pos (enemies g ! i)),
               dive_point := 0\<rparr>)"
proof -
  let ?es = "enemies g"
  let ?fe = "filter (\<lambda>i. state (?es ! i) = Formation) [0..<length ?es]"
  show ?thesis
  proof (cases "intro_done g \<and> rnd < 0.01 + 0.002 * real_of_int (level g - 1) \<and> ?fe \<noteq> []")
    case False
    then show ?thesis by (auto simp: scene_dive_trigger_def Let_def)
  next
    case True
    let ?k = "?fe ! (pick mod length ?fe)"
    have "pick mod length ?fe < length ?fe" using True by simp
    then have "?k \<in> set ?fe" by (rule nth_mem)
    then have "?k \<in> {i. state (?es ! i) = Formation} \<inter> set [0..<length ?es]"
      by (simp only: set_filter) auto
    then have k: "state (?es ! ?k) = Formation" "?k < length ?es" by simp_all
    have eq: "enemies (scene_dive_trigger rnd pick g) =
        ?es[?k := (?es ! ?k)\<lparr>state := Diving,
               dive_path := create_dive_path (center (?es ! ?k))
                              (ship_center (player_ship g)) (formation_pos (?es ! ?k)),
               dive_point := 0\<rparr>]"
      using True by (simp add: scene_dive_trigger_def Let_def)
    show ?thesis
    proof (cases "i = ?k")
      case True
      then show ?thesis using k assms unfolding eq by simp
    next
      case False
      then show ?thesis unfolding eq by simp
    qed
  qed
qed

text \<open>
  Claim C7. The dive path is exactly \<open>[m, p, m, f]\<close>, with \<open>m\<close> the (integer, floor)
  midpoint of start and player position moved down by 200. The dive trigger changes at
  most enemies that are in \<open>Formation\<close>, and gives the chosen one the path computed from
  its centre, the centre of the player ship at that moment and its formation slot. No
  later update of the agent changes its dive path, and no change to the ships (player
  movement) changes any enemy: the second point stays the snapshot.
\<close>

theorem dive_path_snapshot:
  "create_dive_path s p f =
     [((fst s + fst p) div 2, (snd s + snd p) div 2 + 200), p,
      ((fst s + fst p) div 2, (snd s + snd p) div 2 + 200), f]
   \<and> length (enemies (scene_dive_trigger rnd pick g)) = length (enemies g)
   \<and> (\<forall>i < length (enemies g).
        enemies (scene_dive_trigger rnd pick g) ! i = enemies g ! i
        \<or> (state (enemies g ! i) = Formation
           \<and> enemies (scene_dive_trigger rnd pick g) ! i =
               (enemies g ! i)
                 \<lparr>state := Diving,
                  dive_path := create_dive_path (center (enemies g ! i))
                                 (ship_center (player_ship g)) (formation_pos (enemies g ! i)),
                  dive_point := 0\<rparr>))
   \<and> (\<forall>e e'. update e = Inr e' \<longrightarrow> dive_path e' = dive_path e)
   \<and> (\<forall>st. enemies (g\<lparr>ships := st\<rparr>) = enemies g)"
proof (intro conjI allI impI)
  show "create_dive_path s p f =
     [((fst s + fst p) div 2, (snd s + snd p) div 2 + 200), p,
      ((fst s + fst p) div 2, (snd s + snd p) div 2 + 200), f]"
    by (simp add: create_dive_path_def Let_def)
  show "length (enemies (scene_dive_trigger rnd pick g)) = length (enemies g)"
    by (rule scene_dive_trigger_length)
  show "enemies (g\<lparr>ships := st\<rparr>) = enemies g" for st
    by (simp add: enemies_def)
  show "dive_path e' = dive_path e" if "update e = Inr e'" for e e'
    using that by (rule update_keeps_dive_path)
qed (rule scene_dive_trigger_nth)

lemma playing_player_center: "ship_center (player_ship (playing_game n b)) = (550, 1200)"
  by (simp add: ship_center_def player_ship_def playing_game_def)

lemma playing_enemies: "enemies (playing_game n b) = [formation_enemy, diving_enemy]"
  by (simp add: enemies_def playing_game_def)

lemma formation_enemy_fields:
  "center formation_enemy = (250, 100)" "formation_pos formation_enemy = (250, 100)"
  by (simp_all add: formation_enemy_def EnemyPath_init_fields)

lemma playing_dive_trigger:
  "enemies (scene_dive_trigger 0 0 (playing_game n b)) =
     [formation_enemy\<lparr>state := Diving,
        dive_path := [(400, 850), (550, 1200), (400, 850), (250, 100)],
        dive_point := 0\<rparr>, diving_enemy]"
proof -
  have c: "intro_done (playing_game n b)" "level (playing_game n b) = 1"
    by (simp_all add: playing_game_def)
  have u: "[0..<2] = [0, Suc 0]" by (simp add: upt_rec)
  show ?thesis
    by (simp add: scene_dive_trigger_def Let_def c playing_enemies u playing_player_center
          formation_enemy_fields create_dive_path_def)
qed

theorem dive_path_snapshot_witness:
  "(0::nat) < length (enemies (playing_game 3 False))
   \<and> state (enemies (playing_game 3 False) ! 0) = Formation
   \<and> create_dive_path (250, 100) (550, 1200) (250, 100) =
        [(400, 850), (550, 1200), (400, 850), (250, 100)]
   \<and> dive_path (enemies (scene_dive_trigger 0 0 (playing_game 3 False)) ! 0) =
        create_dive_path (center formation_enemy) (ship_center (player_ship (playing_game 3 False)))
          (formation_pos formation_enemy)
   \<and> update diving_at_waypoint = Inr (diving_at_waypoint\<lparr>dive_point := 1\<rparr>)
   \<and> dive_path (diving_at_waypoint\<lparr>dive_point := 1\<rparr>) = dive_path diving_at_waypoint"
proof -
  have u: "update diving_at_waypoint = Inr (diving_at_waypoint\<lparr>dive_point := 1\<rparr>)"
    by (simp add: update_def diving_at_waypoint_def waypoint_step_def)
  show ?thesis
    using dive_path_snapshot [of "(250, 100)" "(550, 1200)" "(250, 100)" 0 0 "playing_game 3 False"]
          u playing_dive_trigger
    by (simp add: playing_enemies playing_player_center formation_enemy_fields)
qed

subsection \<open>The layout of a wave\<close>

text \<open>
  Claim C1, as amended. With \<open>wave_size = 40\<close> a call of \<open>spawn_wave\<close> appends exactly 20
  agents, one per cell of the 5-column by 4-row grid, in row-major order, all
  \<open>Entering\<close> with speed \<open>4 * speed_multiplier\<close>; the slots are centred on the 1100-wide
  playfield (leftmost plus rightmost x is 1100). For every wave size the number of
  agents placed is \<open>min wave_size (4 * cols)\<close> with \<open>cols = min 5 (ceil (wave_size / 4))\<close>
  (and none for a wave size below 1): never more than \<open>wave_size\<close>, never more than 20.
\<close>

theorem spawn_wave_40_layout:
  "(\<exists>new. enemy_group (spawn_wave (sp\<lparr>wave_size := 40\<rparr>) sm) = enemy_group sp @ new
      \<and> length new = 20
      \<and> map formation_pos new =
           [(250, 100), (400, 100), (550, 100), (700, 100), (850, 100),
            (250, 190), (400, 190), (550, 190), (700, 190), (850, 190),
            (250, 280), (400, 280), (550, 280), (700, 280), (850, 280),
            (250, 370), (400, 370), (550, 370), (700, 370), (850, 370)]
      \<and> fst (hd (map formation_pos new)) + fst (last (map formation_pos new)) = 1100
      \<and> map state new = replicate 20 Entering
      \<and> map speed new = replicate 20 (4 * sm))
   \<and> int (length (enemy_group (spawn_wave sp' sm'))) - int (length (enemy_group sp'))
       = max 0 (min (wave_size sp') (4 * min 5 ((wave_size sp' + 3) div 4)))"
proof (intro conjI)
  let ?new = "concat (map (\<lambda>row. map (\<lambda>col. EnemyPath_init (250 + col * 150) (- 70) False
                                        (250 + col * 150, 100 + row * 90) sm)
                              [0, 1, 2, 3, 4])
                   [0, 1, 2, 3])"
  have a1: "enemy_group (spawn_wave (sp\<lparr>wave_size := 40\<rparr>) sm) = enemy_group sp @ ?new"
    by (rule spawn_wave_40)
  have a2: "length ?new = 20" by simp
  have a3: "map formation_pos ?new =
           [(250, 100), (400, 100), (550, 100), (700, 100), (850, 100),
            (250, 190), (400, 190), (550, 190), (700, 190), (850, 190),
            (250, 280), (400, 280), (550, 280), (700, 280), (850, 280),
            (250, 370), (400, 370), (550, 370), (700, 370), (850, 370)]"
    by (simp add: EnemyPath_init_fields)
  have a4: "fst (hd (map formation_pos ?new)) + fst (last (map formation_pos ?new)) = 1100"
    unfolding a3 by simp
  have a5: "map state ?new = replicate 20 Entering"
    by (simp add: EnemyPath_init_fields numeral_eq_Suc)
  have a6: "map speed ?new = replicate 20 (4 * sm)"
    by (simp add: EnemyPath_init_fields numeral_eq_Suc)
  show "\<exists>new. enemy_group (spawn_wave (sp\<lparr>wave_size := 40\<rparr>) sm) = enemy_group sp @ new
      \<and> length new = 20
      \<and> map formation_pos new =
           [(250, 100), (400, 100), (550, 100), (700, 100), (850, 100),
            (250, 190), (400, 190), (550, 190), (700, 190), (850, 190),
            (250, 280), (400, 280), (550, 280), (700, 280), (850, 280),
            (250, 370), (400, 370), (550, 370), (700, 370), (850, 370)]
      \<and> fst (hd (map formation_pos new)) + fst (last (map formation_pos new)) = 1100
      \<and> map state new = replicate 20 Entering
      \<and> map speed new = replicate 20 (4 * sm)"
    by (intro exI [of _ ?new] conjI a1 a2 a3 a4 a5 a6)
  show "int (length (enemy_group (spawn_wave sp' sm'))) - int (length (enemy_group sp'))
       = max 0 (min (wave_size sp') (4 * min 5 ((wave_size sp' + 3) div 4)))"
    using spawn_wave_count [of sp' sm'] by linarith
qed

text \<open>
  Claim C1 as stated asks for 40 agents; the grid is capped at 5 columns and 4 rows, so
  the call made by \<open>GameScene.__init__\<close> creates 20.
\<close>

theorem spawn_wave_40_not_40:
  "length (enemy_group (spawn_wave (EnemySpawner_init\<lparr>wave_size := 40\<rparr>) 1)) = 20
   \<and> length (enemy_group (spawn_wave (EnemySpawner_init\<lparr>wave_size := 40\<rparr>) 1)) \<noteq> 40"
proof -
  have "int (length (enemy_group (spawn_wave (EnemySpawner_init\<lparr>wave_size := 40\<rparr>) 1))) = 20"
    unfolding spawn_wave_count by (simp add: EnemySpawner_init_def)
  then show ?thesis by simp
qed

subsection \<open>The tick of a player-enemy collision\<close>

lemma player_death_fields:
  "lives (player_death g) = lives g - 1"
  "level (player_death g) = level g + 1"
  "enemy_spawner (player_death g) = enemy_spawner g"
  "speed_multiplier (player_death g) = speed_multiplier g"
  "game_over (player_death g) = (game_over g \<or> lives g \<le> 1)"
  "intro_done (player_death g) = intro_done g"
  by (auto simp: player_death_def Let_def)


lemma scene_collision_miss:
  "\<not> (intro_done g \<and> spritecollideany (player_ship g) (enemies g)) \<Longrightarrow> scene_collision g = g"
  unfolding scene_collision_def by (rule if_not_P)

lemma respawn_countdown_running:
  assumes "1 < respawn_timer g"
  shows "respawn_countdown g = g\<lparr>respawn_timer := respawn_timer g - 1\<rparr>"
  using assms by (simp add: respawn_countdown_def Let_def)

lemma respawn_countdown_done:
  assumes "respawn_timer g \<le> 1"
  shows "respawn_countdown g =
     g\<lparr>respawn_timer := respawn_timer g - 1, is_respawning := False,
       enemy_spawner := spawn_wave (enemy_spawner g) 1\<rparr>"
  using assms by (simp add: respawn_countdown_def Let_def)

lemma scene_respawn_running:
  assumes "is_respawning g" "1 < respawn_timer g"
  shows "lives (scene_respawn g) = lives g"
    and "level (scene_respawn g) = level g"
    and "enemy_spawner (scene_respawn g) = enemy_spawner g"
    and "is_respawning (scene_respawn g)"
    and "respawn_timer (scene_respawn g) = respawn_timer g - 1"
    and "game_over (scene_respawn g) = game_over g"
    and "speed_multiplier (scene_respawn g) = speed_multiplier g"
    and "intro_done (scene_respawn g) = intro_done g"
  using assms by (simp_all add: scene_respawn_def Let_def respawn_countdown_running)

lemma scene_level_progression_skip:
  "is_respawning g \<Longrightarrow> scene_level_progression g = g"
  by (simp add: scene_level_progression_def)

lemma scene_respawn_again_running:
  assumes "is_respawning g" "1 < respawn_timer g"
  shows "scene_respawn_again g = g\<lparr>respawn_timer := respawn_timer g - 1\<rparr>"
  using assms by (simp add: scene_respawn_again_def respawn_countdown_running)




lemma intro_move_level: "level (intro_move g) = level g"
  by (simp add: intro_move_def Let_def)

lemma scene_intro_level: "level (scene_intro g) = level g"
  by (simp add: scene_intro_def intro_fly_def intro_land_def intro_descend_def
        intro_start_moving_def intro_start_descent_def intro_count_def Let_def intro_move_level)

lemma scene_scoring_level: "level (scene_scoring g) = level g"
  by (simp add: scene_scoring_def split: prod.splits)



lemma sqrt_100: "sqrt 100 = 10"
  by (rule real_sqrt_unique) simp_all

lemma sqrt_36: "sqrt 36 = 6"
  by (rule real_sqrt_unique) simp_all

lemma dive_path_of_diving_enemy:
  "dive_path diving_enemy = [(550, 850), (550, 1200), (550, 850), (550, 100)]"
  by (simp add: diving_enemy_def create_dive_path_def)

lemma diving_enemy_fields:
  "state diving_enemy = Diving" "dive_point diving_enemy = 1" "speed diving_enemy = 4"
  "center diving_enemy = (550, 1190)"
  by (simp_all add: diving_enemy_def EnemyPath_init_fields)

lemma diving_enemy_update1:
  "update diving_enemy = Inr (diving_enemy\<lparr>center := (550, 1194)\<rparr>)"
  by (simp add: update_def diving_enemy_fields dive_path_of_diving_enemy waypoint_step_def
        sqrt_100)

lemma diving_enemy_update2:
  "update (diving_enemy\<lparr>center := (550, 1194)\<rparr>) = Inr (diving_enemy\<lparr>center := (550, 1198)\<rparr>)"
  by (simp add: update_def diving_enemy_fields dive_path_of_diving_enemy waypoint_step_def
        sqrt_36)

lemma formation_enemy_update: "update formation_enemy = Inr formation_enemy"
  by (simp add: update_def formation_enemy_def EnemyPath_init_fields)


lemma playing_ships_calm: "Ship_update (ships (playing_game n b) i) = ships (playing_game n b) i"
  by (simp add: playing_game_def Ship_update_def Ship_init_def intro_ship_def)









lemma scene_dive_trigger_idle:
  "\<not> rnd < 0.01 + 0.002 * real_of_int (level g - 1) \<Longrightarrow> scene_dive_trigger rnd pick g = g"
  by (simp add: scene_dive_trigger_def Let_def)








subsection \<open>Level clear and the next wave\<close>

lemma intro_move_view: "wave_view (intro_move g) = wave_view g"
  by (simp add: intro_move_def Let_def wave_view_def)

lemma intro_move_done: "intro_done g \<Longrightarrow> intro_done (intro_move g)"
  by (simp add: intro_move_def Let_def)

lemma scene_intro_view: "wave_view (scene_intro g) = wave_view g"
  by (simp add: scene_intro_def intro_fly_def intro_land_def intro_descend_def
        intro_start_moving_def intro_start_descent_def intro_count_def Let_def intro_move_view)
     (simp add: wave_view_def)

lemma scene_intro_done: "intro_done g \<Longrightarrow> intro_done (scene_intro g)"
  by (simp add: scene_intro_def intro_fly_def intro_land_def intro_descend_def
        intro_start_moving_def intro_start_descent_def intro_count_def Let_def intro_move_done)

lemma spritecollideany_none: "\<not> spritecollideany s []"
  by (simp add: spritecollideany_def)

lemma scene_update_sprites_empty:
  assumes "enemies g = []"
  shows "\<exists>g1. scene_update_sprites g = Inr g1 \<and> wave_view g1 = wave_view g
           \<and> intro_done g1 = intro_done g"
  using assms
  by (auto simp: scene_update_sprites_def Let_def wave_view_def set_enemies_def enemies_def)

lemma scene_scoring_empty:
  assumes "enemies g = []"
  shows "wave_view (scene_scoring g) = wave_view g"
    and "intro_done (scene_scoring g) = intro_done g"
  using assms
  by (simp_all add: scene_scoring_def wave_view_def set_enemies_def enemies_def)

lemma scene_dive_trigger_empty: "enemies g = [] \<Longrightarrow> scene_dive_trigger rnd pick g = g"
  by (simp add: scene_dive_trigger_def Let_def)

lemma enemies_view: "wave_view g1 = wave_view g \<Longrightarrow> enemies g1 = enemies g"
  by (simp add: wave_view_def enemies_def)

lemma before_collision_empty:
  assumes "enemies g = []"
  shows "\<exists>g1. scene_before_collision rnd pick g = Inr g1 \<and> wave_view g1 = wave_view g
           \<and> (intro_done g \<longrightarrow> intro_done g1)"
proof -
  from scene_update_sprites_empty [OF assms] obtain ga where
    ga: "scene_update_sprites g = Inr ga" "wave_view ga = wave_view g"
        "intro_done ga = intro_done g" by blast
  let ?gb = "scene_intro ga"
  have vb: "wave_view ?gb = wave_view g" using ga(2) by (simp add: scene_intro_view)
  then have eb: "enemies ?gb = []" using assms enemies_view by metis
  let ?gc = "scene_scoring ?gb"
  have vc: "wave_view ?gc = wave_view g" using vb scene_scoring_empty(1) [OF eb] by simp
  then have ec: "enemies ?gc = []" using assms enemies_view by metis
  have d: "scene_dive_trigger rnd pick ?gc = ?gc" by (rule scene_dive_trigger_empty [OF ec])
  have "scene_before_collision rnd pick g = Inr ?gc"
    by (simp add: scene_before_collision_def ga(1) d)
  moreover have "intro_done g \<longrightarrow> intro_done ?gc"
    using ga(3) scene_intro_done [of ga] scene_scoring_empty(2) [OF eb] by simp
  ultimately show ?thesis using vc by blast
qed

lemma collision_empty: "enemies g = [] \<Longrightarrow> scene_collision g = g"
  by (simp add: scene_collision_def spritecollideany_none)

lemma after_dive_clear:
  assumes "enemies g = []" "\<not> is_respawning g" "intro_done g"
  shows "wave_view (scene_after_dive g) =
           (True, 119, level g + 1, 1.0 + real_of_int (level g + 1 - 1) * 0.15,
            (enemy_spawner g)\<lparr>wave_size := min (40 + (level g + 1) * 5) 80\<rparr>)"
proof -
  have c: "scene_collision g = g" by (rule collision_empty [OF assms(1)])
  have r: "scene_respawn g = g" using assms(2) by (simp add: scene_respawn_def)
  let ?l = "scene_level_progression g"
  have l: "wave_view ?l =
           (True, 120, level g + 1, 1.0 + real_of_int (level g + 1 - 1) * 0.15,
            (enemy_spawner g)\<lparr>wave_size := min (40 + (level g + 1) * 5) 80\<rparr>)"
    using assms by (simp add: scene_level_progression_def Let_def wave_view_def)
  then have "is_respawning ?l" "1 < respawn_timer ?l" by (simp_all add: wave_view_def)
  then have "scene_respawn_again ?l = ?l\<lparr>respawn_timer := respawn_timer ?l - 1\<rparr>"
    by (rule scene_respawn_again_running)
  then show ?thesis
    unfolding scene_after_dive_def c r using l by (simp add: wave_view_def)
qed

lemma after_dive_waiting:
  assumes "enemies g = []" "is_respawning g" "3 \<le> respawn_timer g"
  shows "wave_view (scene_after_dive g) =
           (True, respawn_timer g - 2, level g, speed_multiplier g, enemy_spawner g)"
proof -
  have c: "scene_collision g = g" by (rule collision_empty [OF assms(1)])
  have t: "1 < respawn_timer g" using assms(3) by simp
  note s = scene_respawn_running [OF assms(2) t]
  have l: "scene_level_progression (scene_respawn g) = scene_respawn g"
    using s(4) by (rule scene_level_progression_skip)
  have t2: "1 < respawn_timer (scene_respawn g)" using s(5) assms(3) by simp
  have a: "scene_respawn_again (scene_respawn g) =
      (scene_respawn g)\<lparr>respawn_timer := respawn_timer (scene_respawn g) - 1\<rparr>"
    by (rule scene_respawn_again_running [OF s(4) t2])
  show ?thesis
    unfolding scene_after_dive_def c l a using s by (simp add: wave_view_def)
qed

lemma scene_respawn_done:
  assumes "is_respawning g" "respawn_timer g \<le> 1"
  shows "wave_view (scene_respawn g) =
           (False, respawn_timer g - 1, level g, speed_multiplier g,
            spawn_wave (enemy_spawner g) 1)"
  using assms by (simp add: scene_respawn_def Let_def respawn_countdown_done wave_view_def)

lemma after_dive_spawn:
  assumes "enemies g = []" "is_respawning g" "respawn_timer g = 1"
    and "enemy_group (spawn_wave (enemy_spawner g) 1) \<noteq> []"
  shows "wave_view (scene_after_dive g) =
           (False, 0, level g, speed_multiplier g, spawn_wave (enemy_spawner g) 1)"
proof -
  have c: "scene_collision g = g" by (rule collision_empty [OF assms(1)])
  have t: "respawn_timer g \<le> 1" using assms(3) by simp
  have s: "wave_view (scene_respawn g) =
           (False, 0, level g, speed_multiplier g, spawn_wave (enemy_spawner g) 1)"
    using scene_respawn_done [OF assms(2) t] assms(3) by simp
  then have n: "\<not> is_respawning (scene_respawn g)"
    and e: "enemies (scene_respawn g) \<noteq> []"
    using assms(4) by (simp_all add: wave_view_def enemies_def)
  have l: "scene_level_progression (scene_respawn g) = scene_respawn g"
    using e by (simp add: scene_level_progression_def)
  have a: "scene_respawn_again (scene_respawn g) = scene_respawn g"
    using n by (simp add: scene_respawn_again_def)
  show ?thesis unfolding scene_after_dive_def c l a by (rule s)
qed

lemma view_fields:
  assumes "wave_view g1 = wave_view g"
  shows "is_respawning g1 = is_respawning g" "respawn_timer g1 = respawn_timer g"
    "level g1 = level g" "speed_multiplier g1 = speed_multiplier g"
    "enemy_spawner g1 = enemy_spawner g" "enemies g1 = enemies g"
  using assms by (simp_all add: wave_view_def enemies_def)

lemma tick_clear:
  assumes "enemies g = []" "\<not> is_respawning g" "intro_done g"
  shows "\<exists>g'. update_scene rnd pick g = Inr g' \<and>
           wave_view g' =
             (True, 119, level g + 1, 1.0 + real_of_int (level g + 1 - 1) * 0.15,
              (enemy_spawner g)\<lparr>wave_size := min (40 + (level g + 1) * 5) 80\<rparr>)"
proof -
  from before_collision_empty [OF assms(1), of rnd pick] obtain g1 where
    g1: "scene_before_collision rnd pick g = Inr g1" "wave_view g1 = wave_view g"
        "intro_done g \<longrightarrow> intro_done g1" by blast
  note f = view_fields [OF g1(2)]
  have "wave_view (scene_after_dive g1) =
           (True, 119, level g1 + 1, 1.0 + real_of_int (level g1 + 1 - 1) * 0.15,
            (enemy_spawner g1)\<lparr>wave_size := min (40 + (level g1 + 1) * 5) 80\<rparr>)"
    using f assms g1(3) by (intro after_dive_clear) simp_all
  then show ?thesis using g1(1) f by (simp add: update_scene_def)
qed

lemma tick_waiting:
  assumes "enemies g = []" "is_respawning g" "3 \<le> respawn_timer g"
  shows "\<exists>g'. update_scene rnd pick g = Inr g' \<and>
           wave_view g' =
             (True, respawn_timer g - 2, level g, speed_multiplier g, enemy_spawner g)"
proof -
  from before_collision_empty [OF assms(1), of rnd pick] obtain g1 where
    g1: "scene_before_collision rnd pick g = Inr g1" "wave_view g1 = wave_view g" by blast
  note f = view_fields [OF g1(2)]
  have "wave_view (scene_after_dive g1) =
           (True, respawn_timer g1 - 2, level g1, speed_multiplier g1, enemy_spawner g1)"
    using f assms by (intro after_dive_waiting) simp_all
  then show ?thesis using g1(1) f by (simp add: update_scene_def)
qed

lemma tick_spawn:
  assumes "enemies g = []" "is_respawning g" "respawn_timer g = 1"
    and "enemy_group (spawn_wave (enemy_spawner g) 1) \<noteq> []"
  shows "\<exists>g'. update_scene rnd pick g = Inr g' \<and>
           wave_view g' =
             (False, 0, level g, speed_multiplier g, spawn_wave (enemy_spawner g) 1)"
proof -
  from before_collision_empty [OF assms(1), of rnd pick] obtain g1 where
    g1: "scene_before_collision rnd pick g = Inr g1" "wave_view g1 = wave_view g" by blast
  note f = view_fields [OF g1(2)]
  have "wave_view (scene_after_dive g1) =
           (False, 0, level g1, speed_multiplier g1, spawn_wave (enemy_spawner g1) 1)"
    using f assms by (intro after_dive_spawn) simp_all
  then show ?thesis using g1(1) f by (simp add: update_scene_def)
qed

lemma countdown_ends_in_default_wave:
  assumes "wave_view g = (True, 2 * int k + 1, L, M, sp)" "enemy_group sp = []"
    and "enemy_group (spawn_wave sp 1) \<noteq> []"
  shows "\<exists>g'. run_ticks rnd pick (Suc k) g = Inr g' \<and>
           wave_view g' = (False, 0, L, M, spawn_wave sp 1)"
  using assms(1)
proof (induction k arbitrary: g)
  case 0
  then have f: "is_respawning g" "respawn_timer g = 1" "level g = L"
    "speed_multiplier g = M" "enemy_spawner g = sp"
    by (simp_all add: wave_view_def)
  have e: "enemies g = []" using f(5) assms(2) by (simp add: enemies_def)
  from tick_spawn [OF e f(1,2), of rnd pick] assms(3) f
  obtain g' where "update_scene rnd pick g = Inr g'"
    "wave_view g' = (False, 0, L, M, spawn_wave sp 1)" by auto
  then show ?case by simp
next
  case (Suc k)
  then have f: "is_respawning g" "respawn_timer g = 2 * int (Suc k) + 1" "level g = L"
    "speed_multiplier g = M" "enemy_spawner g = sp"
    by (simp_all add: wave_view_def)
  have e: "enemies g = []" using f(5) assms(2) by (simp add: enemies_def)
  have t: "3 \<le> respawn_timer g" using f(2) by simp
  from tick_waiting [OF e f(1) t, of rnd pick] f
  obtain g1 where g1: "update_scene rnd pick g = Inr g1"
    "wave_view g1 = (True, 2 * int k + 1, L, M, sp)" by auto
  from Suc.IH [OF g1(2)] obtain g' where
    "run_ticks rnd pick (Suc k) g1 = Inr g'" "wave_view g' = (False, 0, L, M, spawn_wave sp 1)"
    by blast
  then show ?case using g1(1) by simp
qed

lemma spawn_wave_default_speeds:
  assumes "enemy_group sp = []" "wave_size sp = 50"
  shows "map speed (enemy_group (spawn_wave sp 1)) = replicate 20 4"
proof -
  from spawn_wave_appends [of sp 1] obtain new where
    new: "enemy_group (spawn_wave sp 1) = enemy_group sp @ new"
         "\<forall>e \<in> set new. state e = Entering \<and> speed e = 4 * 1" by blast
  have "int (length (enemy_group (spawn_wave sp 1))) = 20"
    unfolding spawn_wave_count using assms by simp
  then have len: "length (map speed (enemy_group (spawn_wave sp 1))) = 20" by simp
  have "\<forall>y \<in> set (map speed (enemy_group (spawn_wave sp 1))). y = 4"
    using new assms(1) by auto
  with len show ?thesis by (intro replicate_eqI) auto
qed

lemma cleared_game_fields:
  "enemies cleared_game = []" "\<not> is_respawning cleared_game" "intro_done cleared_game"
  "level cleared_game = 1" "speed_multiplier cleared_game = 1"
  "enemy_spawner cleared_game = EnemySpawner_init"
  by (simp_all add: cleared_game_def set_enemies_def enemies_def playing_game_def
        EnemySpawner_init_def)

text \<open>
  Claim C8. From a cleared scene at level 1 (intro done, not respawning, no enemies):
  the first tick raises the level to 2, the wave size to 50 and the speed multiplier to
  1.15 and starts a countdown; 60 ticks later the countdown block calls \<open>spawn_wave()\<close>
  with its default multiplier, so each of the 20 agents of the next wave has speed 4,
  not 4 * 1.15.
\<close>

theorem level_clear_wave_speed:
  "map_sum id (\<lambda>g. (level g, speed_multiplier g, wave_size (enemy_spawner g),
                    map speed (enemies g)))
     (run_ticks 1 0 61 cleared_game) = Inr (2, 1.15, 50, replicate 20 4)"
proof -
  let ?sp = "EnemySpawner_init\<lparr>wave_size := 50\<rparr>"
  from tick_clear [OF cleared_game_fields(1,2,3), of 1 0] obtain g1 where
    g1: "update_scene 1 0 cleared_game = Inr g1"
        "wave_view g1 = (True, 2 * int 59 + 1, 2, 1.15, ?sp)"
    by (auto simp: cleared_game_fields)
  have e: "enemy_group ?sp = []" "wave_size ?sp = 50"
    by (simp_all add: EnemySpawner_init_def)
  have s: "map speed (enemy_group (spawn_wave ?sp 1)) = replicate 20 4"
    by (rule spawn_wave_default_speeds [OF e])
  then have ne: "enemy_group (spawn_wave ?sp 1) \<noteq> []" by auto
  from countdown_ends_in_default_wave [OF g1(2) e(1) ne, of 1 0] obtain g' where
    g': "run_ticks 1 0 (Suc 59) g1 = Inr g'"
        "wave_view g' = (False, 0, 2, 1.15, spawn_wave ?sp 1)" by blast
  have n: "(61::nat) = Suc (Suc 59)" by simp
  have "run_ticks 1 0 (Suc (Suc 59)) cleared_game = run_ticks 1 0 (Suc 59) g1"
    by (subst run_ticks.simps(2)) (simp only: g1(1) sum.case)
  then have "run_ticks 1 0 (Suc (Suc 59)) cleared_game = Inr g'"
    by (simp only: g'(1))
  then have r: "run_ticks 1 0 61 cleared_game = Inr g'"
    by (simp only: n)
  have f: "level g' = 2" "speed_multiplier g' = 1.15" "enemy_spawner g' = spawn_wave ?sp 1"
    using g'(2) by (simp_all add: wave_view_def)
  show ?thesis
    unfolding r by (simp add: f enemies_def s spawn_wave_fields e(2))
qed

subsection \<open>Scoring in a tick\<close>

lemma award_score:
  "score (award e g) =
     score g + (if state e = Formation then 50 else if state e = Diving then 150 else 0)"
  by (simp add: award_def Let_def)

lemma fold_award_score:
  "score (fold award hits g) =
     score g + 50 * int (length (filter (\<lambda>e. state e = Formation) hits))
             + 150 * int (length (filter (\<lambda>e. state e = Diving) hits))"
  by (induction hits arbitrary: g) (simp_all add: award_score)

lemma award_crossing:
  assumes "score g < extra_life g"
  shows "\<exists>k. 0 \<le> k \<and> lives (award e g) = lives g + k
           \<and> extra_life (award e g) = extra_life g + 10000 * k
           \<and> score (award e g) < extra_life (award e g)
           \<and> (0 < k \<longrightarrow> extra_life (award e g) - 10000 \<le> score (award e g))"
proof (cases "extra_life g \<le> score (award e g)")
  case True
  then show ?thesis using assms
    by (intro exI [of _ 1]) (simp add: award_def Let_def split: if_splits)
next
  case False
  then show ?thesis using assms
    by (intro exI [of _ 0]) (simp add: award_def Let_def split: if_splits)
qed

lemma fold_award_crossings:
  assumes "score g < extra_life g"
  shows "\<exists>k. 0 \<le> k \<and> lives (fold award hits g) = lives g + k
           \<and> extra_life (fold award hits g) = extra_life g + 10000 * k
           \<and> score (fold award hits g) < extra_life (fold award hits g)
           \<and> (0 < k \<longrightarrow> extra_life (fold award hits g) - 10000 \<le> score (fold award hits g))"
  using assms
proof (induction hits arbitrary: g)
  case Nil
  then show ?case by (intro exI [of _ 0]) simp
next
  case (Cons e hits)
  obtain k1 where k1: "0 \<le> k1" "lives (award e g) = lives g + k1"
      "extra_life (award e g) = extra_life g + 10000 * k1"
      "score (award e g) < extra_life (award e g)"
      "0 < k1 \<longrightarrow> extra_life (award e g) - 10000 \<le> score (award e g)"
    using award_crossing [OF Cons.prems, of e] by blast
  let ?f = "fold award hits (award e g)"
  obtain k2 where k2: "0 \<le> k2" "lives ?f = lives (award e g) + k2"
      "extra_life ?f = extra_life (award e g) + 10000 * k2"
      "score ?f < extra_life ?f"
      "0 < k2 \<longrightarrow> extra_life ?f - 10000 \<le> score ?f"
    using Cons.IH [OF k1(4)] by blast
  have mono: "score (award e g) \<le> score ?f"
    unfolding fold_award_score [of hits "award e g"] by simp
  have "0 < k1 + k2 \<longrightarrow> extra_life ?f - 10000 \<le> score ?f"
  proof (cases "0 < k2")
    case True
    then show ?thesis using k2(5) by simp
  next
    case False
    then have "k2 = 0" using k2(1) by simp
    then show ?thesis using k1 k2 mono by auto
  qed
  then show ?case
    using k1 k2 by (intro exI [of _ "k1 + k2"]) simp
qed

lemma crossings_closed_form:
  fixes s t k :: int
  assumes "0 \<le> k" "s < t + 10000 * k" "0 < k \<longrightarrow> t + 10000 * k - 10000 \<le> s"
  shows "k = (if s < t then 0 else (s - t) div 10000 + 1)"
proof (cases "k = 0")
  case True
  then show ?thesis using assms by simp
next
  case False
  then have k: "0 < k" using assms(1) by simp
  then have lo: "10000 * (k - 1) \<le> s - t" using assms(3) by simp
  have hi: "s - t < 10000 * (k - 1) + 10000" using assms(2) by simp
  define r where "r = s - t - 10000 * (k - 1)"
  have r: "0 \<le> r" "r < 10000" using lo hi by (simp_all add: r_def)
  have "(s - t) div 10000 = (r + (k - 1) * 10000) div 10000" by (simp add: r_def)
  also have "\<dots> = (k - 1) + r div 10000" by (rule div_mult_self1) simp
  also have "r div 10000 = 0" using r by (rule div_pos_pos_trivial)
  finally have "(s - t) div 10000 = k - 1" by simp
  moreover have "\<not> s < t" using lo k by simp
  ultimately show ?thesis by simp
qed


lemma groupcollide_hits:
  assumes "groupcollide es bs = (hits, rest, bs')" "e \<in> set hits"
  shows "e \<in> set es \<and> (\<exists>b \<in> set bs. colliderect (enemy_rect e) (bullet_rect b))"
  using assms
proof (induction es arbitrary: bs hits rest bs')
  case Nil
  then show ?case by simp
next
  case (Cons x es)
  let ?hit = "\<lambda>b. colliderect (enemy_rect x) (bullet_rect b)"
  obtain h r b2 where rec: "groupcollide es (filter (\<lambda>b. \<not> ?hit b) bs) = (h, r, b2)"
    by (cases "groupcollide es (filter (\<lambda>b. \<not> ?hit b) bs)") auto
  have tail: "e \<in> set es \<and> (\<exists>b \<in> set bs. colliderect (enemy_rect e) (bullet_rect b))"
    if "e \<in> set h"
    using Cons.IH [OF rec that] by auto
  show ?case
  proof (cases "filter ?hit bs = []")
    case True
    then have "hits = h" using Cons.prems(1) rec by simp
    then show ?thesis using tail Cons.prems(2) by simp
  next
    case False
    then have hits: "hits = x # h" using Cons.prems(1) rec by simp
    from False obtain b where "b \<in> set bs" "?hit b"
      by (auto simp: filter_empty_conv)
    then have "\<exists>b \<in> set bs. colliderect (enemy_rect x) (bullet_rect b)" by blast
    then show ?thesis using tail Cons.prems(2) hits by auto
  qed
qed

lemma groupcollide_lengths:
  "groupcollide es bs = (hits, rest, bs') \<Longrightarrow> length hits + length rest = length es"
proof (induction es arbitrary: bs hits rest bs')
  case Nil
  then show ?case by simp
next
  case (Cons x es)
  let ?hit = "\<lambda>b. colliderect (enemy_rect x) (bullet_rect b)"
  obtain h r b2 where rec: "groupcollide es (filter (\<lambda>b. \<not> ?hit b) bs) = (h, r, b2)"
    by (cases "groupcollide es (filter (\<lambda>b. \<not> ?hit b) bs)") auto
  have "length h + length r = length es" by (rule Cons.IH [OF rec])
  then show ?case using Cons.prems rec by (cases "filter ?hit bs = []") auto
qed

lemma scene_update_sprites_tally:
  assumes "scene_update_sprites g = Inr g1"
  shows "score g1 = score g" "extra_life g1 = extra_life g" "lives g1 = lives g"
  using assms
  by (auto simp: scene_update_sprites_def Let_def set_enemies_def split: if_splits sum.splits)

lemma intro_move_tally:
  "score (intro_move g) = score g" "extra_life (intro_move g) = extra_life g"
  "lives (intro_move g) = lives g"
  by (simp_all add: intro_move_def Let_def)

lemma scene_intro_tally:
  "score (scene_intro g) = score g" "extra_life (scene_intro g) = extra_life g"
  "lives (scene_intro g) = lives g"
  by (simp_all add: scene_intro_def intro_fly_def intro_land_def intro_descend_def
        intro_start_moving_def intro_start_descent_def intro_count_def Let_def intro_move_tally)

lemma scene_dive_trigger_tally:
  "score (scene_dive_trigger rnd pick g) = score g"
  "extra_life (scene_dive_trigger rnd pick g) = extra_life g"
  "lives (scene_dive_trigger rnd pick g) = lives g"
  by (simp_all add: scene_dive_trigger_def Let_def)

lemma respawn_countdown_lives: "lives (respawn_countdown g) = lives g"
  by (simp add: respawn_countdown_def Let_def)

lemma scene_collision_tally:
  "score (scene_collision g) = score g" "extra_life (scene_collision g) = extra_life g"
  "lives (scene_collision g) =
     lives g - (if intro_done g \<and> spritecollideany (player_ship g) (enemies g) then 1 else 0)"
  by (simp_all add: scene_collision_def Let_def player_death_fields)

lemma scene_respawn_tally:
  "score (scene_respawn g) = score g" "extra_life (scene_respawn g) = extra_life g"
  "lives (scene_respawn g) = lives g"
  by (simp_all add: scene_respawn_def Let_def respawn_countdown_lives)

lemma scene_level_progression_tally:
  "score (scene_level_progression g) = score g"
  "extra_life (scene_level_progression g) = extra_life g"
  "lives (scene_level_progression g) = lives g"
  by (simp_all add: scene_level_progression_def Let_def)

lemma scene_respawn_again_tally:
  "score (scene_respawn_again g) = score g"
  "extra_life (scene_respawn_again g) = extra_life g"
  "lives (scene_respawn_again g) = lives g"
  by (simp_all add: scene_respawn_again_def respawn_countdown_lives)

lemma scene_after_dive_tally:
  "score (scene_after_dive g) = score g" "extra_life (scene_after_dive g) = extra_life g"
  "lives (scene_after_dive g) =
     lives g - (if intro_done g \<and> spritecollideany (player_ship g) (enemies g) then 1 else 0)"
  unfolding scene_after_dive_def
  by (simp_all only: scene_respawn_again_tally scene_level_progression_tally
        scene_respawn_tally scene_collision_tally)

lemma scene_scoring_unfold:
  assumes "groupcollide (enemies g) (bullets (player_ship g)) = (hits, rest, bs)"
  shows "scene_scoring g =
     fold award hits
       ((set_enemies rest g)\<lparr>ships := (ships g)(player g := (player_ship g)\<lparr>bullets := bs\<rparr>)\<rparr>)"
  by (simp add: scene_scoring_def assms)

lemma fold_award_enemies: "enemies (fold award hits g) = enemies g"
  by (simp add: enemies_def)

text \<open>
  Claim C5. In a tick that starts with the score below the extra-life threshold (every
  reachable state, \<open>reachable_inv\<close>) and whose sprite updates raise nothing, let \<open>hits\<close> be
  the enemies that \<^verbatim>\<open>groupcollide\<close> finds overlapping a projectile of the player. Each of
  them was in the enemy collection and overlapped a projectile, and is removed. The tick
  adds 50 to the score for every hit enemy in the \<open>Formation\<close> state and 150 for every one
  in the \<open>Diving\<close> state. Lives and threshold move together: for every threshold
  \<open>extra_life + 10000 * j\<close> that the new score has reached, lives go up by exactly 1 and
  the threshold by 10000, once, so that the score is below the threshold again. The
  later blocks of the tick keep score and threshold, and take one life only when the
  player collides with an enemy.
\<close>

theorem scoring_pass:
  assumes below: "score g < extra_life g"
    and sprites: "scene_update_sprites g = Inr g1"
    and collide: "groupcollide (enemies (scene_intro g1)) (bullets (player_ship (scene_intro g1)))
                    = (hits, rest, bs)"
  shows "\<exists>gb g'. scene_before_collision rnd pick g = Inr gb
     \<and> update_scene rnd pick g = Inr g'
     \<and> gb = scene_dive_trigger rnd pick (scene_scoring (scene_intro g1))
     \<and> enemies (scene_scoring (scene_intro g1)) = rest
     \<and> length hits + length rest = length (enemies (scene_intro g1))
     \<and> (\<forall>e \<in> set hits. e \<in> set (enemies (scene_intro g1))
           \<and> (\<exists>b \<in> set (bullets (player_ship (scene_intro g1))).
                 colliderect (enemy_rect e) (bullet_rect b)))
     \<and> score gb = score g + 50 * int (length (filter (\<lambda>e. state e = Formation) hits))
                           + 150 * int (length (filter (\<lambda>e. state e = Diving) hits))
     \<and> lives gb = lives g
          + (if score gb < extra_life g then 0 else (score gb - extra_life g) div 10000 + 1)
     \<and> extra_life gb = extra_life g
          + 10000 * (if score gb < extra_life g then 0 else (score gb - extra_life g) div 10000 + 1)
     \<and> score gb < extra_life gb
     \<and> score g' = score gb \<and> extra_life g' = extra_life gb
     \<and> lives g' = lives gb
          - (if intro_done gb \<and> spritecollideany (player_ship gb) (enemies gb) then 1 else 0)"
proof -
  let ?g2 = "scene_intro g1"
  let ?start = "(set_enemies rest ?g2)
                  \<lparr>ships := (ships ?g2)(player ?g2 := (player_ship ?g2)\<lparr>bullets := bs\<rparr>)\<rparr>"
  let ?g3 = "scene_scoring ?g2"
  let ?gb = "scene_dive_trigger rnd pick ?g3"
  let ?g' = "scene_after_dive ?gb"
  have g3: "?g3 = fold award hits ?start" by (rule scene_scoring_unfold [OF collide])
  have start: "score ?start = score g" "extra_life ?start = extra_life g"
      "lives ?start = lives g" "enemies ?start = rest"
    by (simp_all add: scene_intro_tally scene_update_sprites_tally [OF sprites] enemies_def
          set_enemies_def)
  have b: "score ?start < extra_life ?start" using below start by simp
  obtain k where k: "0 \<le> k" "lives ?g3 = lives g + k"
      "extra_life ?g3 = extra_life g + 10000 * k" "score ?g3 < extra_life ?g3"
      "0 < k \<longrightarrow> extra_life ?g3 - 10000 \<le> score ?g3"
    using fold_award_crossings [OF b, of hits] unfolding g3 [symmetric] start by blast
  have kf: "k = (if score ?g3 < extra_life g then 0 else (score ?g3 - extra_life g) div 10000 + 1)"
    using k by (intro crossings_closed_form) simp_all
  have sc: "score ?g3 = score g + 50 * int (length (filter (\<lambda>e. state e = Formation) hits))
                           + 150 * int (length (filter (\<lambda>e. state e = Diving) hits))"
    unfolding g3 fold_award_score start ..
  have a1: "scene_before_collision rnd pick g = Inr ?gb"
    by (simp add: scene_before_collision_def sprites)
  have a2: "update_scene rnd pick g = Inr ?g'"
    by (simp add: update_scene_def a1)
  have a3: "enemies ?g3 = rest" unfolding g3 fold_award_enemies start ..
  have a4: "length hits + length rest = length (enemies ?g2)"
    by (rule groupcollide_lengths [OF collide])
  have a5: "\<forall>e \<in> set hits. e \<in> set (enemies ?g2)
           \<and> (\<exists>b \<in> set (bullets (player_ship ?g2)).
                 colliderect (enemy_rect e) (bullet_rect b))"
    using groupcollide_hits [OF collide] by blast
  have a6: "score ?gb = score g + 50 * int (length (filter (\<lambda>e. state e = Formation) hits))
                           + 150 * int (length (filter (\<lambda>e. state e = Diving) hits))"
    unfolding scene_dive_trigger_tally by (rule sc)
  have a7: "lives ?gb = lives g
          + (if score ?gb < extra_life g then 0 else (score ?gb - extra_life g) div 10000 + 1)"
    unfolding scene_dive_trigger_tally using k(2) kf by simp
  have a8: "extra_life ?gb = extra_life g
          + 10000 * (if score ?gb < extra_life g then 0 else (score ?gb - extra_life g) div 10000 + 1)"
    unfolding scene_dive_trigger_tally using k(3) kf by simp
  have a9: "score ?gb < extra_life ?gb" unfolding scene_dive_trigger_tally by (rule k(4))
  have a10: "score ?g' = score ?gb" "extra_life ?g' = extra_life ?gb"
    "lives ?g' = lives ?gb
          - (if intro_done ?gb \<and> spritecollideany (player_ship ?gb) (enemies ?gb) then 1 else 0)"
    by (rule scene_after_dive_tally)+
  show ?thesis
    by (intro exI [of _ ?gb] exI [of _ ?g'] conjI a1 a2 refl a3 a4 a5 a6 a7 a8 a9 a10)
qed


subsection \<open>A shot that scores\<close>

lemma scene_intro_idle:
  assumes "intro_done g" "\<not> intro_moving g" "start_descent g" "intro_timer g \<noteq> 179"
    and "rect_y (ships g (intro_left_ship g)) < 1200"
  shows "scene_intro g = g\<lparr>intro_timer := intro_timer g + 1\<rparr>"
  using assms
  by (simp add: scene_intro_def intro_fly_def intro_land_def intro_descend_def
        intro_start_moving_def intro_start_descent_def intro_count_def Let_def)

lemma scene_intro_landed:
  assumes "intro_done g" "\<not> intro_moving g" "start_descent g" "intro_timer g \<noteq> 179"
    and "1200 \<le> rect_y (ships g (intro_left_ship g))"
  shows "scene_intro g =
     g\<lparr>intro_timer := intro_timer g + 1,
       ships := (ships g)(intro_left_ship g :=
                  (ships g (intro_left_ship g))\<lparr>rect_y := 1200, vel_y := 0\<rparr>),
       intro_done := True, player_control_enable := True\<rparr>"
  using assms
  by (simp add: scene_intro_def intro_fly_def intro_land_def intro_descend_def
        intro_start_moving_def intro_start_descent_def intro_count_def Let_def)

lemma shooting_game_fields:
  "\<not> is_respawning (shooting_game sc s)"
  "enemies (shooting_game sc s) = [formation_enemy, diving_enemy]"
  "sprite_group (shooting_game sc s) = [0]"
  "lives_group (shooting_game sc s) = [0, 1, 2]"
  "intro_ships (shooting_game sc s) = [1, 2]"
  "player (shooting_game sc s) = 0"
  "ships (shooting_game sc s) = (ships (playing_game 3 False))(0 := s)"
  "score (shooting_game sc s) = sc"
  "extra_life (shooting_game sc s) = 10000"
  "lives (shooting_game sc s) = 3"
  "level (shooting_game sc s) = 1"
  "intro_done (shooting_game sc s)"
  "\<not> intro_moving (shooting_game sc s)"
  "start_descent (shooting_game sc s)"
  "intro_timer (shooting_game sc s) = 400"
  "intro_left_ship (shooting_game sc s) = 0"
  by (simp_all add: shooting_game_def playing_game_def enemies_def)

lemma shooting_ships:
  "group_update [1, 2] (group_update [0, 1, 2]
     (group_update [0] ((ships (playing_game 3 False))(0 := s))))
   = (ships (playing_game 3 False))(0 := Ship_update (Ship_update s))"
  by (rule ext) (simp add: playing_ships_calm)

lemma shooting_update_sprites:
  "scene_update_sprites (shooting_game sc s) = Inr (shot_sprites sc s)"
proof -
  have u1: "update_all [formation_enemy, diving_enemy] =
      Inr [formation_enemy, diving_enemy\<lparr>center := (550, 1194)\<rparr>]"
    by (simp add: formation_enemy_update diving_enemy_update1)
  have u2: "update_all [formation_enemy, diving_enemy\<lparr>center := (550, 1194)\<rparr>] =
      Inr [formation_enemy, diving_enemy\<lparr>center := (550, 1198)\<rparr>]"
    by (simp add: formation_enemy_update diving_enemy_update2)
  show ?thesis
    unfolding scene_update_sprites_def shot_sprites_def
    by (simp only: shooting_game_fields if_True not_False_eq_True u1 u2 sum.case Let_def
          shooting_ships fun_upd_same fun_upd_upd)
qed


lemma veteran_ship_updated:
  "(Ship_update (Ship_update veteran_ship))
     \<lparr>bullets := map Bullet_update (bullets (Ship_update (Ship_update veteran_ship)))\<rparr>
   = Ship_init\<lparr>rect_x := 216, rect_y := 1165,
               bullets := [Bullet_init\<lparr>b_rect_x := 248, b_rect_y := 133\<rparr>]\<rparr>"
  by (simp add: veteran_ship_def Ship_update_def Ship_init_def Bullet_update_def Bullet_init_def)

lemma fresh_ship_updated:
  "(Ship_update (Ship_update fresh_ship))
     \<lparr>bullets := map Bullet_update (bullets (Ship_update (Ship_update fresh_ship)))\<rparr>
   = Ship_init\<lparr>rect_x := 515, rect_y := 1200,
               bullets := [Bullet_init\<lparr>b_rect_x := 547, b_rect_y := 1176\<rparr>]\<rparr>"
  by (simp add: fresh_ship_def Ship_shoot_def Ship_update_def Ship_init_def Bullet_update_def
        Bullet_init_def)

lemma shot_sprites_fields:
  "enemies (shot_sprites sc s) = [formation_enemy, diving_enemy\<lparr>center := (550, 1198)\<rparr>]"
  "player (shot_sprites sc s) = 0"
  "ships (shot_sprites sc s) 0 =
     (Ship_update (Ship_update s))
       \<lparr>bullets := map Bullet_update (bullets (Ship_update (Ship_update s)))\<rparr>"
  "intro_done (shot_sprites sc s)"
  "\<not> intro_moving (shot_sprites sc s)"
  "start_descent (shot_sprites sc s)"
  "intro_timer (shot_sprites sc s) = 400"
  "intro_left_ship (shot_sprites sc s) = 0"
  by (simp_all add: shot_sprites_def set_enemies_def enemies_def shooting_game_def
        playing_game_def)

lemma veteran_collide:
  "groupcollide (enemies (scene_intro (shot_sprites sc veteran_ship)))
     (bullets (player_ship (scene_intro (shot_sprites sc veteran_ship))))
   = ([formation_enemy], [diving_enemy\<lparr>center := (550, 1198)\<rparr>], [])"
proof -
  let ?g = "shot_sprites sc veteran_ship"
  have i: "scene_intro ?g = ?g\<lparr>intro_timer := intro_timer ?g + 1\<rparr>"
    by (rule scene_intro_idle) (simp_all add: shot_sprites_fields veteran_ship_updated)
  have e: "enemies (scene_intro ?g) = [formation_enemy, diving_enemy\<lparr>center := (550, 1198)\<rparr>]"
    unfolding i using shot_sprites_fields(1) [of sc veteran_ship] by (simp add: enemies_def)
  have b: "bullets (player_ship (scene_intro ?g)) = [Bullet_init\<lparr>b_rect_x := 248, b_rect_y := 133\<rparr>]"
    unfolding i by (simp add: player_ship_def shot_sprites_fields veteran_ship_updated)
  show ?thesis
    unfolding e b
    by (simp add: colliderect_def enemy_rect_def bullet_rect_def
          formation_enemy_fields diving_enemy_fields Bullet_init_def)
qed

lemma fresh_collide:
  "groupcollide (enemies (scene_intro (shot_sprites sc fresh_ship)))
     (bullets (player_ship (scene_intro (shot_sprites sc fresh_ship))))
   = ([diving_enemy\<lparr>center := (550, 1198)\<rparr>], [formation_enemy], [])"
proof -
  let ?g = "shot_sprites sc fresh_ship"
  have i: "scene_intro ?g =
      ?g\<lparr>intro_timer := intro_timer ?g + 1,
         ships := (ships ?g)(intro_left_ship ?g :=
                  (ships ?g (intro_left_ship ?g))\<lparr>rect_y := 1200, vel_y := 0\<rparr>),
         intro_done := True, player_control_enable := True\<rparr>"
    by (rule scene_intro_landed) (simp_all add: shot_sprites_fields fresh_ship_updated)
  have e: "enemies (scene_intro ?g) = [formation_enemy, diving_enemy\<lparr>center := (550, 1198)\<rparr>]"
    unfolding i using shot_sprites_fields(1) [of sc fresh_ship] by (simp add: enemies_def)
  have b: "bullets (player_ship (scene_intro ?g)) = [Bullet_init\<lparr>b_rect_x := 547, b_rect_y := 1176\<rparr>]"
    unfolding i by (simp add: player_ship_def shot_sprites_fields fresh_ship_updated)
  show ?thesis
    unfolding e b
    by (simp add: colliderect_def enemy_rect_def bullet_rect_def
          formation_enemy_fields diving_enemy_fields Bullet_init_def)
qed


lemma scene_scoring_player:
  assumes "groupcollide (enemies g) (bullets (player_ship g)) = (hits, rest, bs)"
  shows "player_ship (scene_scoring g) = (player_ship g)\<lparr>bullets := bs\<rparr>"
    and "enemies (scene_scoring g) = rest"
  unfolding scene_scoring_unfold [OF assms]
  by (simp_all add: player_ship_def enemies_def set_enemies_def)

lemma shot_sprites_level: "level (shot_sprites sc s) = 1"
  by (simp add: shot_sprites_def shooting_game_fields)

lemma shot_dive_idle:
  "scene_dive_trigger 1 pick (scene_scoring (scene_intro (shot_sprites sc s)))
   = scene_scoring (scene_intro (shot_sprites sc s))"
  by (rule scene_dive_trigger_idle)
     (simp add: scene_scoring_level scene_intro_level shot_sprites_level)

lemma veteran_no_collision:
  "\<not> spritecollideany
        (player_ship (scene_dive_trigger 1 pick (scene_scoring (scene_intro (shot_sprites sc veteran_ship)))))
        (enemies (scene_dive_trigger 1 pick (scene_scoring (scene_intro (shot_sprites sc veteran_ship)))))"
proof -
  let ?g = "shot_sprites sc veteran_ship"
  have i: "scene_intro ?g = ?g\<lparr>intro_timer := intro_timer ?g + 1\<rparr>"
    by (rule scene_intro_idle) (simp_all add: shot_sprites_fields veteran_ship_updated)
  have p: "player_ship (scene_intro ?g) =
      Ship_init\<lparr>rect_x := 216, rect_y := 1165,
                bullets := [Bullet_init\<lparr>b_rect_x := 248, b_rect_y := 133\<rparr>]\<rparr>"
    unfolding i by (simp add: player_ship_def shot_sprites_fields veteran_ship_updated)
  show ?thesis
    unfolding shot_dive_idle scene_scoring_player [OF veteran_collide] p
    by (simp add: spritecollideany_def colliderect_def ship_rect_def enemy_rect_def
          diving_enemy_fields)
qed

lemma fresh_no_collision:
  "\<not> spritecollideany
        (player_ship (scene_dive_trigger 1 pick (scene_scoring (scene_intro (shot_sprites sc fresh_ship)))))
        (enemies (scene_dive_trigger 1 pick (scene_scoring (scene_intro (shot_sprites sc fresh_ship)))))"
proof -
  let ?g = "shot_sprites sc fresh_ship"
  have i: "scene_intro ?g =
      ?g\<lparr>intro_timer := intro_timer ?g + 1,
         ships := (ships ?g)(intro_left_ship ?g :=
                  (ships ?g (intro_left_ship ?g))\<lparr>rect_y := 1200, vel_y := 0\<rparr>),
         intro_done := True, player_control_enable := True\<rparr>"
    by (rule scene_intro_landed) (simp_all add: shot_sprites_fields fresh_ship_updated)
  have p: "rect_x (player_ship (scene_intro ?g)) = 515" "rect_y (player_ship (scene_intro ?g)) = 1200"
    unfolding i by (simp_all add: player_ship_def shot_sprites_fields fresh_ship_updated)
  show ?thesis
    unfolding shot_dive_idle scene_scoring_player [OF fresh_collide]
    by (simp add: spritecollideany_def colliderect_def ship_rect_def enemy_rect_def
          formation_enemy_fields p)
qed

theorem scoring_pass_witness:
  "score (shooting_game 9900 veteran_ship) < extra_life (shooting_game 9900 veteran_ship)
   \<and> scene_update_sprites (shooting_game 9900 veteran_ship) = Inr (shot_sprites 9900 veteran_ship)
   \<and> groupcollide (enemies (scene_intro (shot_sprites 9900 veteran_ship)))
        (bullets (player_ship (scene_intro (shot_sprites 9900 veteran_ship))))
      = ([formation_enemy], [diving_enemy\<lparr>center := (550, 1198)\<rparr>], [])
   \<and> (\<exists>g'. update_scene 1 0 (shooting_game 9900 veteran_ship) = Inr g'
         \<and> score g' = 9950 \<and> lives g' = 3 \<and> extra_life g' = 10000)
   \<and> score (shooting_game 9960 veteran_ship) < extra_life (shooting_game 9960 veteran_ship)
   \<and> (\<exists>g'. update_scene 1 0 (shooting_game 9960 veteran_ship) = Inr g'
         \<and> score g' = 10010 \<and> lives g' = 4 \<and> extra_life g' = 20000)
   \<and> score (shooting_game 9900 fresh_ship) < extra_life (shooting_game 9900 fresh_ship)
   \<and> scene_update_sprites (shooting_game 9900 fresh_ship) = Inr (shot_sprites 9900 fresh_ship)
   \<and> groupcollide (enemies (scene_intro (shot_sprites 9900 fresh_ship)))
        (bullets (player_ship (scene_intro (shot_sprites 9900 fresh_ship))))
      = ([diving_enemy\<lparr>center := (550, 1198)\<rparr>], [formation_enemy], [])
   \<and> (\<exists>g'. update_scene 1 0 (shooting_game 9900 fresh_ship) = Inr g'
         \<and> score g' = 10050 \<and> lives g' = 4 \<and> extra_life g' = 20000)"
proof -
  have below: "score (shooting_game 9900 s) < extra_life (shooting_game 9900 s)"
      "score (shooting_game 9960 s) < extra_life (shooting_game 9960 s)" for s
    by (simp_all add: shooting_game_fields)
  have a: "\<exists>g'. update_scene 1 0 (shooting_game 9900 veteran_ship) = Inr g'
         \<and> score g' = 9950 \<and> lives g' = 3 \<and> extra_life g' = 10000"
    using scoring_pass [OF below(1) shooting_update_sprites veteran_collide, of 1 0]
          veteran_no_collision [of 0 9900]
    by (auto simp: shooting_game_fields)
  have b: "\<exists>g'. update_scene 1 0 (shooting_game 9960 veteran_ship) = Inr g'
         \<and> score g' = 10010 \<and> lives g' = 4 \<and> extra_life g' = 20000"
    using scoring_pass [OF below(2) shooting_update_sprites veteran_collide, of 1 0]
          veteran_no_collision [of 0 9960]
    by (auto simp: shooting_game_fields)
  have c: "\<exists>g'. update_scene 1 0 (shooting_game 9900 fresh_ship) = Inr g'
         \<and> score g' = 10050 \<and> lives g' = 4 \<and> extra_life g' = 20000"
    using scoring_pass [OF below(1) shooting_update_sprites fresh_collide, of 1 0]
          fresh_no_collision [of 0 9900]
    by (auto simp: shooting_game_fields)
  show ?thesis
    by (intro conjI below shooting_update_sprites veteran_collide fresh_collide a b c)
qed

end
